theory Spec2Isabelle
  imports
    Complex_Main
    "HOL-Library.Char_ord"
    "HOL-Library.List_Lexorder"
    "HOL-Library.Sublist"
begin

section \<open>AFCA watershed dataset: normalisation and indexing pipeline\<close>

text \<open>
  Shallow embedding of \<^verbatim>\<open>scripts/process-usgs-raw-data.py\<close> (class
  \<^verbatim>\<open>USGSRawDataProcessor\<close>), \<^verbatim>\<open>scripts/process-water-data.py\<close> (class
  \<^verbatim>\<open>WaterDataProcessor\<close>) and \<^verbatim>\<open>scripts/validate-water-data.py\<close> (class
  \<^verbatim>\<open>WaterDataValidator\<close>).

  Conventions of the embedding.
  \<^item> Python floats are idealised as real numbers (\<^typ>\<open>real\<close>): no representation error,
    no NaN and no infinities. The builtin \<^verbatim>\<open>float(s)\<close> is a parameter
    \<open>to_float :: string \<Rightarrow> real option\<close> of every function that calls it; \<open>None\<close>
    is the \<^verbatim>\<open>ValueError\<close>. The instance \<open>decimal_float\<close> below reads plain
    decimal literals and is the one used to evaluate concrete inputs.
  \<^item> Python strings are \<^typ>\<open>string\<close>; their order is the lexicographic order on
    characters, which is what \<^verbatim>\<open>sorted(..., key=lambda x: x['date'])\<close> uses.
  \<^item> A Python \<^verbatim>\<open>dict\<close> whose iteration order matters is an association list in
    insertion order.
  \<^item> An exception that the source catches is a branch of the model; the three quality
    strings \<^verbatim>\<open>'good'\<close>, \<^verbatim>\<open>'fair'\<close>, \<^verbatim>\<open>'poor'\<close> are a datatype.
\<close>

subsection \<open>Raw USGS samples and the quality classifier\<close>

datatype quality = Good | Fair | Poor

datatype py_error =
  KeyError | ValueError | TypeError | OverflowError | UnboundLocalError
  | FileNotFoundError | JSONDecodeError

text \<open>
  One element of \<^verbatim>\<open>series['values'][0]['value']\<close>. A field that is \<open>None\<close> is a
  key the dictionary does not have (reading it raises \<^verbatim>\<open>KeyError\<close>);
  \<^verbatim>\<open>value.get('qualifiers', [])\<close> reads an absent list as empty. A qualifier is a
  dictionary that may or may not have the key \<^verbatim>\<open>qualifierCode\<close>.
\<close>

record usgs_value =
  dateTime :: "string option"
  value_str :: "string option"
  qualifiers :: "string option list option"

text \<open>
  The loop \<^verbatim>\<open>for qualifier in qualifiers: if code in ['P','e','A']: quality = 'fair'
  elif code in ['R','S']: quality = 'poor'\<close>, the same text in both processors.
\<close>

fun quality_loop :: "quality \<Rightarrow> string option list \<Rightarrow> py_error + quality" where
  "quality_loop q [] = Inr q"
| "quality_loop q (None # qs) = Inl KeyError"
| "quality_loop q (Some c # qs) =
     quality_loop
       (if c \<in> set [''P'', ''e'', ''A''] then Fair
        else if c \<in> set [''R'', ''S''] then Poor
        else q) qs"

definition determine_quality :: "usgs_value \<Rightarrow> py_error + quality" where
  "determine_quality v =
     quality_loop Good (case qualifiers v of None \<Rightarrow> [] | Some qs \<Rightarrow> qs)"

subsection \<open>Numbers\<close>

text \<open>
  \<^verbatim>\<open>round(x, n)\<close> on a float: to the nearest multiple of \<open>10\<^sup>-\<^sup>n\<close>, a tie going to
  the even multiple.
\<close>

definition round_half_even :: "real \<Rightarrow> int" where
  "round_half_even y =
     (let f = \<lfloor>y\<rfloor>;
          d = y - of_int f
      in if d < 1 / 2 then f
         else if 1 / 2 < d then f + 1
         else if even f then f else f + 1)"

definition py_round :: "real \<Rightarrow> nat \<Rightarrow> real" where
  "py_round x n = of_int (round_half_even (x * 10 ^ n)) / 10 ^ n"

definition average :: "real list \<Rightarrow> real" where
  "average xs = sum_list xs / of_nat (length xs)"

text \<open>\<^verbatim>\<open>min(values)\<close> and \<^verbatim>\<open>max(values)\<close> on a list the caller knows is not empty.\<close>

fun py_min :: "real list \<Rightarrow> real" where
  "py_min [] = 0"
| "py_min [x] = x"
| "py_min (x # y # ys) = min x (py_min (y # ys))"

fun py_max :: "real list \<Rightarrow> real" where
  "py_max [] = 0"
| "py_max [x] = x"
| "py_max (x # y # ys) = max x (py_max (y # ys))"

subsection \<open>Builtins on strings\<close>

definition is_digit :: "char \<Rightarrow> bool" where
  "is_digit c = (CHR ''0'' \<le> c \<and> c \<le> CHR ''9'')"

definition digit_value :: "char \<Rightarrow> nat" where
  "digit_value c = of_char c - 48"

definition nat_of_digits :: "string \<Rightarrow> nat" where
  "nat_of_digits ds = foldl (\<lambda>n c. 10 * n + digit_value c) 0 ds"

text \<open>
  The instance of \<^verbatim>\<open>float(s)\<close> used on concrete inputs: an optional sign, digits,
  and an optional point followed by digits, with a digit on at least one side of the
  point. Anything else is a \<^verbatim>\<open>ValueError\<close> here.
\<close>

definition decimal_float :: "string \<Rightarrow> real option" where
  "decimal_float s =
     (let (neg, body) =
            (case s of
               [] \<Rightarrow> (False, s)
             | c # r \<Rightarrow> if c = CHR ''-'' then (True, r)
                        else if c = CHR ''+'' then (False, r) else (False, s));
          ip = takeWhile is_digit body;
          rest = dropWhile is_digit body;
          sgn = (if neg then - 1 else 1)
      in case rest of
           [] \<Rightarrow> if ip = [] then None else Some (sgn * of_nat (nat_of_digits ip))
         | c # fp \<Rightarrow>
             if c = CHR ''.'' \<and> list_all is_digit fp \<and> \<not> (ip = [] \<and> fp = [])
             then Some (sgn * (of_nat (nat_of_digits (ip @ fp)) / 10 ^ length fp))
             else None)"

text \<open>
  \<^verbatim>\<open>int(s)\<close> on an ASCII string: surrounding white space is dropped, then an optional
  sign, then digits in which single underscores may separate digits.
\<close>

definition is_space :: "char \<Rightarrow> bool" where
  "is_space c =
     (let n = (of_char c :: nat) in (9 \<le> n \<and> n \<le> 13) \<or> n = 32)"

definition strip :: "string \<Rightarrow> string" where
  "strip s = rev (dropWhile is_space (rev (dropWhile is_space s)))"

fun int_digits :: "string \<Rightarrow> string option" where
  "int_digits [] = None"
| "int_digits [c] = (if is_digit c then Some [c] else None)"
| "int_digits (c # d # r) =
     (if is_digit c then
        (if d = CHR ''_'' then map_option ((#) c) (int_digits r)
         else map_option ((#) c) (int_digits (d # r)))
      else None)"

definition py_int :: "string \<Rightarrow> int option" where
  "py_int s =
     (let t = strip s;
          (neg, body) =
            (case t of
               [] \<Rightarrow> (False, t)
             | c # r \<Rightarrow> if c = CHR ''-'' then (True, r)
                        else if c = CHR ''+'' then (False, r) else (False, t))
      in case int_digits body of
           None \<Rightarrow> None
         | Some ds \<Rightarrow> Some ((if neg then - 1 else 1) * int (nat_of_digits ds)))"

text \<open>\<^verbatim>\<open>str(n)\<close> and \<^verbatim>\<open>f"{n}"\<close> for an integer.\<close>

definition digit_char :: "nat \<Rightarrow> char" where
  "digit_char d = ''0123456789'' ! d"

fun str_nat :: "nat \<Rightarrow> string" where
  "str_nat n = (if n < 10 then [digit_char n] else str_nat (n div 10) @ [digit_char (n mod 10)])"

declare str_nat.simps [simp del]

definition py_str :: "int \<Rightarrow> string" where
  "py_str i = (if i < 0 then CHR ''-'' # str_nat (nat (- i)) else str_nat (nat i))"

subsection \<open>Grouping in a dictionary\<close>

text \<open>
  \<^verbatim>\<open>if k not in d: d[k] = []\<close> followed by \<^verbatim>\<open>d[k].append(v)\<close>: a new key goes to the
  end of the dictionary, an old key keeps its place.
\<close>

fun group_add :: "'k \<Rightarrow> 'v \<Rightarrow> ('k \<times> 'v list) list \<Rightarrow> ('k \<times> 'v list) list" where
  "group_add k v [] = [(k, [v])]"
| "group_add k v ((k', vs) # rest) =
     (if k = k' then (k', vs @ [v]) # rest else (k', vs) # group_add k v rest)"

subsection \<open>Daily aggregation in \<^verbatim>\<open>USGSRawDataProcessor\<close>\<close>

record day_value =
  dv_value :: real
  dv_quality :: quality
  dv_datetime :: string

text \<open>
  A daily record \<^verbatim>\<open>{'date': d, <value field>: x, 'quality': q}\<close>; the name of the
  value field is kept, because the writer reads the value back under a name.
\<close>

record daily =
  date :: string
  value_field :: string
  daily_value :: real
  daily_quality :: quality

text \<open>
  The body of the first loop of \<^verbatim>\<open>_convert_to_daily_data\<close> for one sample: \<open>None\<close>
  is every \<^verbatim>\<open>continue\<close> (missing value, \<^verbatim>\<open>ValueError\<close> of \<^verbatim>\<open>float\<close>, and
  the \<^verbatim>\<open>KeyError\<close> caught around the whole body), otherwise the date and the entry
  appended under it.
\<close>

definition read_sample :: "(string \<Rightarrow> real option) \<Rightarrow> usgs_value \<Rightarrow> (string \<times> day_value) option" where
  "read_sample to_float v =
     (case dateTime v of
        None \<Rightarrow> None
      | Some date_time \<Rightarrow>
          (case value_str v of
             None \<Rightarrow> None
           | Some s \<Rightarrow>
               if s = ''-999999'' \<or> s = '''' then None
               else (case to_float s of
                       None \<Rightarrow> None
                     | Some numeric_value \<Rightarrow>
                         (case determine_quality v of
                            Inl e \<Rightarrow> None
                          | Inr q \<Rightarrow>
                              Some (take 10 date_time,
                                \<lparr>dv_value = numeric_value, dv_quality = q,
                                 dv_datetime = date_time\<rparr>)))))"

definition group_samples ::
  "(string \<Rightarrow> real option) \<Rightarrow> usgs_value list \<Rightarrow> (string \<times> day_value list) list" where
  "group_samples to_float vs =
     foldl (\<lambda>daily_data v.
              case read_sample to_float v of
                None \<Rightarrow> daily_data
              | Some (d, e) \<Rightarrow> group_add d e daily_data) [] vs"

text \<open>
  \<^verbatim>\<open>if all(q == 'good' ...): 'good' elif any(q == 'poor' ...): 'poor' else: 'fair'\<close>.
\<close>

definition overall_quality :: "quality list \<Rightarrow> quality" where
  "overall_quality qualities =
     (if list_all (\<lambda>q. q = Good) qualities then Good
      else if list_ex (\<lambda>q. q = Poor) qualities then Poor
      else Fair)"

text \<open>The chain of \<^verbatim>\<open>if parameter == ...\<close>: value field and digits for a parameter.\<close>

definition output_format :: "string \<Rightarrow> (string \<times> nat) option" where
  "output_format parameter =
     (if parameter = ''flow'' then Some (''flow_cfs'', 2)
      else if parameter = ''temperature'' then Some (''temperature_c'', 2)
      else if parameter = ''stage'' then Some (''stage_ft'', 2)
      else if parameter = ''conductivity'' then Some (''conductivity_us_cm'', 0)
      else if parameter = ''dissolved_oxygen'' then Some (''dissolved_oxygen_mg_l'', 2)
      else if parameter = ''turbidity'' then Some (''turbidity_ntu'', 2)
      else if parameter = ''ph'' then Some (''ph'', 2)
      else None)"

text \<open>The body of the second loop for one date; \<open>None\<close> is a date that adds no record.\<close>

definition daily_average :: "string \<Rightarrow> string \<times> day_value list \<Rightarrow> daily option" where
  "daily_average parameter entry =
     (case entry of (d, day_values) \<Rightarrow>
        if day_values \<noteq> [] then
          (let avg_value = average (map dv_value day_values);
               q = overall_quality (map dv_quality day_values)
           in case output_format parameter of
                Some (field, digits) \<Rightarrow>
                  Some \<lparr>date = d, value_field = field,
                        daily_value = py_round avg_value digits, daily_quality = q\<rparr>
              | None \<Rightarrow> None)
        else None)"

definition convert_to_daily_data ::
  "(string \<Rightarrow> real option) \<Rightarrow> usgs_value list \<Rightarrow> string \<Rightarrow> daily list" where
  "convert_to_daily_data to_float vs parameter =
     sort_key date (List.map_filter (daily_average parameter) (group_samples to_float vs))"

subsection \<open>Extraction and daily aggregation in \<^verbatim>\<open>WaterDataProcessor\<close>\<close>

record data_point =
  dp_date :: string
  dp_value :: "real option"
  dp_quality :: quality

text \<open>
  The body of the loop of \<^verbatim>\<open>_extract_usgs_parameter\<close> for one sample. The quality is
  determined first; the value \<^verbatim>\<open>-999999\<close> is kept as a point whose value is
  \<^verbatim>\<open>None\<close>; a \<^verbatim>\<open>ValueError\<close> of \<^verbatim>\<open>float\<close> or a \<^verbatim>\<open>KeyError\<close> drops the sample.
\<close>

definition extract_point :: "(string \<Rightarrow> real option) \<Rightarrow> usgs_value \<Rightarrow> data_point option" where
  "extract_point to_float v =
     (case dateTime v of
        None \<Rightarrow> None
      | Some date_str \<Rightarrow>
          (case value_str v of
             None \<Rightarrow> None
           | Some s \<Rightarrow>
               (case determine_quality v of
                  Inl e \<Rightarrow> None
                | Inr q \<Rightarrow>
                    if s \<noteq> ''-999999'' then
                      (case to_float s of
                         None \<Rightarrow> None
                       | Some x \<Rightarrow>
                           Some \<lparr>dp_date = take 10 date_str, dp_value = Some x, dp_quality = q\<rparr>)
                    else Some \<lparr>dp_date = take 10 date_str, dp_value = None, dp_quality = q\<rparr>)))"

definition extract_data_points :: "(string \<Rightarrow> real option) \<Rightarrow> usgs_value list \<Rightarrow> data_point list" where
  "extract_data_points to_float vs = List.map_filter (extract_point to_float) vs"

definition group_points :: "data_point list \<Rightarrow> (string \<times> data_point list) list" where
  "group_points hourly_data = foldl (\<lambda>daily_data p. group_add (dp_date p) p daily_data) [] hourly_data"

text \<open>
  The body of the second loop of \<^verbatim>\<open>WaterDataProcessor._convert_to_daily_data\<close>:
  \<^verbatim>\<open>quality = 'good' if all(p['quality'] == 'good' ...) else 'fair'\<close>.
\<close>

definition water_daily_average :: "string \<Rightarrow> string \<times> data_point list \<Rightarrow> daily option" where
  "water_daily_average output_key entry =
     (case entry of (d, day_points) \<Rightarrow>
        (let vals = List.map_filter dp_value day_points
         in if vals \<noteq> [] then
              Some \<lparr>date = d, value_field = output_key,
                    daily_value = py_round (average vals) 2,
                    daily_quality =
                      (if list_all (\<lambda>p. dp_quality p = Good) day_points then Good else Fair)\<rparr>
            else None))"

definition water_convert_to_daily_data :: "data_point list \<Rightarrow> string \<Rightarrow> daily list" where
  "water_convert_to_daily_data hourly_data output_key =
     sort_key date (List.map_filter (water_daily_average output_key) (group_points hourly_data))"

subsection \<open>Statistics and the canonical record\<close>

record statistics =
  stat_mean :: real
  stat_min :: real
  stat_max :: real
  stat_count :: nat

text \<open>
  The dictionary \<^verbatim>\<open>{'mean': round(sum(values) / len(values), 2), 'min':
  round(min(values), 2), 'max': round(max(values), 2), 'count': len(values)}\<close>, written
  three times in the source, every time under a test that \<^verbatim>\<open>values\<close> is not empty.
\<close>

definition compute_stats :: "real list \<Rightarrow> statistics" where
  "compute_stats vals =
     \<lparr>stat_mean = py_round (average vals) 2,
      stat_min = py_round (py_min vals) 2,
      stat_max = py_round (py_max vals) 2,
      stat_count = length vals\<rparr>"

record afca_data =
  rec_location_id :: int
  rec_location_name :: string
  rec_year :: int
  rec_parameter :: string
  rec_unit :: string
  rec_data :: "daily list"
  rec_statistics :: statistics
  rec_source :: string
  rec_last_updated :: string

text \<open>The units; the three characters outside ASCII are their UTF-8 bytes.\<close>

definition unit_flow :: string where
  "unit_flow = ''ft'' @ [CHR 0xC2, CHR 0xB3] @ ''/s''"

definition unit_temperature :: string where
  "unit_temperature = [CHR 0xC2, CHR 0xB0] @ ''C''"

definition unit_conductivity :: string where
  "unit_conductivity = [CHR 0xC2, CHR 0xB5] @ ''S/cm''"

subsection \<open>\<^verbatim>\<open>USGSRawDataProcessor._save_processed_data\<close>\<close>

text \<open>The first chain of the function: the value field read back, and the unit.\<close>

definition stat_fields :: "string \<Rightarrow> (string \<times> string) option" where
  "stat_fields parameter =
     (if parameter = ''flow'' then Some (''flow_cfs'', unit_flow)
      else if parameter = ''temperature'' then Some (''temperature_c'', unit_temperature)
      else if parameter = ''stage'' then Some (''stage_ft'', ''ft'')
      else if parameter = ''conductivity'' then Some (''conductivity_us_cm'', unit_conductivity)
      else if parameter = ''dissolved_oxygen'' then Some (''dissolved_oxygen_mg_l'', ''mg/L'')
      else if parameter = ''turbidity'' then Some (''turbidity_ntu'', ''NTU'')
      else if parameter = ''ph'' then Some (''ph'', ''pH units'')
      else None)"

text \<open>
  \<^verbatim>\<open>[d[field] for d in year_data]\<close>: a record that has no such field raises
  \<^verbatim>\<open>KeyError\<close>.
\<close>

fun read_values :: "string \<Rightarrow> daily list \<Rightarrow> py_error + real list" where
  "read_values field [] = Inr []"
| "read_values field (d # ds) =
     (if value_field d = field then
        (case read_values field ds of
           Inl e \<Rightarrow> Inl e
         | Inr vs \<Rightarrow> Inr (daily_value d # vs))
      else Inl KeyError)"

definition output_dir_of :: "string \<Rightarrow> string option" where
  "output_dir_of parameter =
     (if parameter \<in> set [''flow''] then Some ''./data/05-flow''
      else if parameter \<in> set [''temperature''] then Some ''./data/03-temperature''
      else if parameter \<in> set [''stage''] then Some ''./data/06-stage''
      else if parameter \<in> set [''conductivity'', ''dissolved_oxygen'', ''turbidity'', ''ph'']
        then Some ''./data/04-quality''
      else None)"

text \<open>
  The result is the file written, with its path, or \<open>None\<close> when the function returns
  without writing; \<open>Inl\<close> is an exception leaving the function. \<open>now\<close> is what
  \<^verbatim>\<open>datetime.now().isoformat()\<close> returns.
\<close>

definition save_processed_data ::
  "string \<Rightarrow> int \<Rightarrow> string \<Rightarrow> string \<Rightarrow> string \<Rightarrow> daily list
     \<Rightarrow> py_error + (string \<times> afca_data) option" where
  "save_processed_data now location_id location_name parameter year year_data =
     (case stat_fields parameter of
        None \<Rightarrow> Inr None
      | Some (field, unit) \<Rightarrow>
          (case read_values field year_data of
             Inl e \<Rightarrow> Inl e
           | Inr vals \<Rightarrow>
               if vals \<noteq> [] then
                 (case py_int year of
                    None \<Rightarrow> Inl ValueError
                  | Some y \<Rightarrow>
                      (case output_dir_of parameter of
                         None \<Rightarrow> Inr None
                       | Some output_dir \<Rightarrow>
                           Inr (Some
                             (output_dir @ ''/location-'' @ py_str location_id @ ''-'' @ year
                                @ ''.json'',
                              \<lparr>rec_location_id = location_id,
                               rec_location_name = location_name,
                               rec_year = y,
                               rec_parameter = parameter,
                               rec_unit = unit,
                               rec_data = year_data,
                               rec_statistics = compute_stats vals,
                               rec_source = ''USGS Stream Gauge Network'',
                               rec_last_updated = now\<rparr>))))
               else Inr None))"

subsection \<open>\<^verbatim>\<open>WaterDataProcessor._save_usgs_data\<close>\<close>

text \<open>The first loop: the points that have a value, grouped by the year of their date.\<close>

definition group_by_year :: "data_point list \<Rightarrow> (string \<times> data_point list) list" where
  "group_by_year data_points =
     foldl (\<lambda>yearly_data p.
              if dp_value p \<noteq> None then group_add (take 4 (dp_date p)) p yearly_data
              else yearly_data) [] data_points"

text \<open>Unit, parameter name and output key: \<open>None\<close> is the \<^verbatim>\<open>continue\<close>.\<close>

definition usgs_unit_key :: "string \<Rightarrow> (string \<times> string \<times> string) option" where
  "usgs_unit_key parameter =
     (if parameter = ''flow'' then Some (unit_flow, ''flow'', ''flow_cfs'')
      else if parameter = ''temperature'' then Some (unit_temperature, ''temperature'', ''temperature_c'')
      else if parameter = ''stage'' then Some (''ft'', ''stage'', ''stage_ft'')
      else None)"

definition usgs_output_dir :: "string \<Rightarrow> string" where
  "usgs_output_dir parameter =
     (if parameter = ''flow'' then ''./data/05-flow''
      else if parameter = ''temperature'' then ''./data/03-temperature''
      else ''./data/06-stage'')"

text \<open>
  The body of the second loop for one year. The statistics are computed from the points
  of the year, the \<^verbatim>\<open>data\<close> of the record from their daily aggregation.
\<close>

definition save_usgs_year ::
  "string \<Rightarrow> int \<Rightarrow> string \<Rightarrow> string \<Rightarrow> string \<times> data_point list
     \<Rightarrow> py_error + (string \<times> afca_data) option" where
  "save_usgs_year now location_id location_name parameter entry =
     (case entry of (year, year_data) \<Rightarrow>
        (let vals = List.map_filter dp_value year_data
         in if vals \<noteq> [] then
              (case usgs_unit_key parameter of
                 None \<Rightarrow> Inr None
               | Some (unit, param_name, output_key) \<Rightarrow>
                   (let daily_data = water_convert_to_daily_data year_data output_key
                    in case py_int year of
                         None \<Rightarrow> Inl ValueError
                       | Some y \<Rightarrow>
                           Inr (Some
                             (usgs_output_dir parameter @ ''/location-'' @ py_str location_id
                                @ ''-'' @ year @ ''.json'',
                              \<lparr>rec_location_id = location_id,
                               rec_location_name = location_name,
                               rec_year = y,
                               rec_parameter = param_name,
                               rec_unit = unit,
                               rec_data = daily_data,
                               rec_statistics = compute_stats vals,
                               rec_source = ''USGS Stream Gauge Network'',
                               rec_last_updated = now\<rparr>))))
            else Inr None))"

text \<open>
  A loop that writes files: the files written, in order, and the exception that ended
  the loop, if one did.
\<close>

fun write_each :: "('a \<Rightarrow> py_error + 'f option) \<Rightarrow> 'a list \<Rightarrow> 'f list \<times> py_error option" where
  "write_each f [] = ([], None)"
| "write_each f (x # xs) =
     (case f x of
        Inl e \<Rightarrow> ([], Some e)
      | Inr None \<Rightarrow> write_each f xs
      | Inr (Some w) \<Rightarrow> (case write_each f xs of (ws, e) \<Rightarrow> (w # ws, e)))"

definition save_usgs_data ::
  "string \<Rightarrow> int \<Rightarrow> string \<Rightarrow> string \<Rightarrow> data_point list
     \<Rightarrow> (string \<times> afca_data) list \<times> py_error option" where
  "save_usgs_data now location_id location_name parameter data_points =
     (if data_points = [] then ([], None)
      else write_each (save_usgs_year now location_id location_name parameter)
             (group_by_year data_points))"

subsection \<open>\<^verbatim>\<open>USGSRawDataProcessor._process_time_series\<close>\<close>

text \<open>
  A time series as the function reads it: \<^verbatim>\<open>sourceInfo.siteCode[0].value\<close>,
  \<^verbatim>\<open>sourceInfo.siteName\<close>, \<^verbatim>\<open>variable.variableCode[0].value\<close> and
  \<^verbatim>\<open>values[0].value\<close>. A series that lacks one of them raises in the first lines
  of the function and writes nothing; such a series is not a value of this type.
\<close>

record series =
  site_code :: string
  site_name :: string
  variable_code :: string
  series_values :: "usgs_value list"

definition parameter_map :: "(string \<times> string) list" where
  "parameter_map =
     [(''00060'', ''flow''), (''00010'', ''temperature''), (''00065'', ''stage''),
      (''00095'', ''conductivity''), (''00094'', ''dissolved_oxygen''),
      (''00076'', ''turbidity''), (''00400'', ''ph'')]"

definition station_map :: "(string \<times> int) list" where
  "station_map =
     [(''15276000'', 410), (''15290000'', 411), (''15284000'', 412), (''15292000'', 413)]"

definition group_days_by_year :: "daily list \<Rightarrow> (string \<times> daily list) list" where
  "group_days_by_year daily_data =
     foldl (\<lambda>yearly_data day. group_add (take 4 (date day)) day yearly_data) [] daily_data"

text \<open>
  The files written, in order, and the exception caught by the function's
  \<^verbatim>\<open>except Exception\<close>, if one ended it.
\<close>

definition process_time_series ::
  "(string \<Rightarrow> real option) \<Rightarrow> string \<Rightarrow> series
     \<Rightarrow> (string \<times> afca_data) list \<times> py_error option" where
  "process_time_series to_float now s =
     (let parameter =
            (case map_of parameter_map (variable_code s) of
               None \<Rightarrow> ''unknown'' | Some p \<Rightarrow> p)
      in if parameter = ''unknown'' then ([], None)
         else (case map_of station_map (site_code s) of
                 None \<Rightarrow> ([], None)
               | Some location_id \<Rightarrow>
                   if location_id = 0 then ([], None)
                   else (let daily_data =
                               convert_to_daily_data to_float (series_values s) parameter
                         in if daily_data \<noteq> [] then
                              write_each
                                (\<lambda>(year, year_data).
                                   save_processed_data now location_id (site_name s)
                                     parameter year year_data)
                                (group_days_by_year daily_data)
                            else ([], None))))"

subsection \<open>\<^verbatim>\<open>WaterDataProcessor._save_research_data\<close>\<close>

text \<open>
  \<^verbatim>\<open>datetime(2023, 6, 1) + timedelta(days=n)\<close>: the civil date of a day number
  counted from 1970-01-01, on which 2023-06-01 is day 19509. A date after the year 9999
  is an \<^verbatim>\<open>OverflowError\<close>.
\<close>

definition civil_from_days :: "int \<Rightarrow> int \<times> int \<times> int" where
  "civil_from_days z0 =
     (let z = z0 + 719468;
          era = z div 146097;
          doe = z - era * 146097;
          yoe = (doe - doe div 1460 + doe div 36524 - doe div 146096) div 365;
          y = yoe + era * 400;
          doy = doe - (365 * yoe + yoe div 4 - yoe div 100);
          mp = (5 * doy + 2) div 153;
          d = doy - (153 * mp + 2) div 5 + 1;
          m = (if mp < 10 then mp + 3 else mp - 9)
      in (if m \<le> 2 then y + 1 else y, m, d))"

definition two_digits :: "int \<Rightarrow> string" where
  "two_digits n = (if n < 10 then CHR ''0'' # py_str n else py_str n)"

definition base_date_plus :: "nat \<Rightarrow> py_error + string" where
  "base_date_plus n =
     (case civil_from_days (19509 + int n) of
        (y, m, d) \<Rightarrow>
          if 9999 < y then Inl OverflowError
          else Inr (py_str y @ ''-'' @ two_digits m @ ''-'' @ two_digits d))"

text \<open>
  The loop \<^verbatim>\<open>for i, value in enumerate(values)\<close>, from index \<open>i\<close> on: one sample
  a week, every one \<^verbatim>\<open>'good'\<close>.
\<close>

fun sample_data_from :: "string \<Rightarrow> nat \<Rightarrow> real list \<Rightarrow> py_error + daily list" where
  "sample_data_from key i [] = Inr []"
| "sample_data_from key i (v # vs) =
     (case base_date_plus (i * 7) of
        Inl e \<Rightarrow> Inl e
      | Inr d \<Rightarrow>
          (case sample_data_from key (Suc i) vs of
             Inl e \<Rightarrow> Inl e
           | Inr ds \<Rightarrow>
               Inr (\<lparr>date = d, value_field = key, daily_value = v, daily_quality = Good\<rparr> # ds)))"

definition save_research_data ::
  "string \<Rightarrow> int \<Rightarrow> string \<Rightarrow> string \<Rightarrow> real list \<Rightarrow> py_error + (string \<times> afca_data) option" where
  "save_research_data now location_id location_name parameter vals =
     (if vals = [] then Inr None
      else
        (let stats = compute_stats vals;
             key = (if parameter = ''temperature'' then parameter @ ''_c''
                    else parameter @ ''_cfs'')
         in case sample_data_from key 0 vals of
              Inl e \<Rightarrow> Inl e
            | Inr sample_data \<Rightarrow>
                if parameter = ''temperature'' then
                  Inr (Some
                    (''./data/03-temperature/location-'' @ py_str location_id @ ''-2023.json'',
                     \<lparr>rec_location_id = location_id, rec_location_name = location_name,
                      rec_year = 2023, rec_parameter = ''temperature'',
                      rec_unit = unit_temperature, rec_data = sample_data,
                      rec_statistics = stats, rec_source = ''Research Paper Extraction'',
                      rec_last_updated = now\<rparr>))
                else if parameter = ''flow'' then
                  Inr (Some
                    (''./data/05-flow/location-'' @ py_str location_id @ ''-2023.json'',
                     \<lparr>rec_location_id = location_id, rec_location_name = location_name,
                      rec_year = 2023, rec_parameter = ''flow'',
                      rec_unit = unit_flow, rec_data = sample_data,
                      rec_statistics = stats, rec_source = ''Research Paper Extraction'',
                      rec_last_updated = now\<rparr>))
                else Inl UnboundLocalError))"

subsection \<open>Files as JSON\<close>

text \<open>
  What \<^verbatim>\<open>json.dump\<close> writes and \<^verbatim>\<open>json.load\<close> reads. An object is the list of
  its members in order; a key is looked up with \<^const>\<open>map_of\<close>.
\<close>

datatype json =
  JNull | JBool bool | JInt int | JNum real | JStr string
  | JArr "json list" | JObj "(string \<times> json) list"

definition json_keys :: "json \<Rightarrow> string list" where
  "json_keys j = (case j of JObj kvs \<Rightarrow> map fst kvs | _ \<Rightarrow> [])"

definition quality_str :: "quality \<Rightarrow> string" where
  "quality_str q = (case q of Good \<Rightarrow> ''good'' | Fair \<Rightarrow> ''fair'' | Poor \<Rightarrow> ''poor'')"

definition daily_json :: "daily \<Rightarrow> json" where
  "daily_json d =
     JObj [(''date'', JStr (date d)),
           (value_field d, JNum (daily_value d)),
           (''quality'', JStr (quality_str (daily_quality d)))]"

definition stats_json :: "statistics \<Rightarrow> json" where
  "stats_json st =
     JObj [(''mean'', JNum (stat_mean st)), (''min'', JNum (stat_min st)),
           (''max'', JNum (stat_max st)), (''count'', JInt (int (stat_count st)))]"

text \<open>The dictionary \<^verbatim>\<open>afca_data\<close> of the three writers of single-parameter records.\<close>

definition afca_json :: "afca_data \<Rightarrow> json" where
  "afca_json r =
     JObj [(''location_id'', JInt (rec_location_id r)),
           (''location_name'', JStr (rec_location_name r)),
           (''year'', JInt (rec_year r)),
           (''parameter'', JStr (rec_parameter r)),
           (''unit'', JStr (rec_unit r)),
           (''data'', JArr (map daily_json (rec_data r))),
           (''statistics'', stats_json (rec_statistics r)),
           (''source'', JStr (rec_source r)),
           (''last_updated'', JStr (rec_last_updated r))]"

subsection \<open>\<^verbatim>\<open>WaterDataProcessor.process_epa_water_quality_data\<close>\<close>

text \<open>
  \<^verbatim>\<open>datetime.strptime(s, '%Y-%m-%d')\<close> on an ASCII string: four digits, a month
  \<^verbatim>\<open>1[0-2]|0[1-9]|[1-9]\<close>, a day \<^verbatim>\<open>3[0-1]|[1-2]\d|0[1-9]|[1-9]| [1-9]\<close>, nothing
  after it, and a date that exists. \<open>None\<close> is the \<^verbatim>\<open>ValueError\<close>.
\<close>

definition month_token :: "string \<Rightarrow> nat option" where
  "month_token ms =
     (case ms of
        [a] \<Rightarrow> if is_digit a \<and> a \<noteq> CHR ''0'' then Some (digit_value a) else None
      | [a, b] \<Rightarrow>
          if a = CHR ''1'' \<and> b \<in> set ''012'' then Some (10 + digit_value b)
          else if a = CHR ''0'' \<and> is_digit b \<and> b \<noteq> CHR ''0'' then Some (digit_value b)
          else None
      | _ \<Rightarrow> None)"

definition day_token :: "string \<Rightarrow> nat option" where
  "day_token ds =
     (case ds of
        [a] \<Rightarrow> if is_digit a \<and> a \<noteq> CHR ''0'' then Some (digit_value a) else None
      | [a, b] \<Rightarrow>
          if a = CHR ''3'' \<and> b \<in> set ''01'' then Some (30 + digit_value b)
          else if a \<in> set ''12'' \<and> is_digit b then Some (10 * digit_value a + digit_value b)
          else if a \<in> set ''0 '' \<and> is_digit b \<and> b \<noteq> CHR ''0'' then Some (digit_value b)
          else None
      | _ \<Rightarrow> None)"

definition days_in_month :: "nat \<Rightarrow> nat \<Rightarrow> nat" where
  "days_in_month y m =
     (if m = 2 then
        (if y mod 400 = 0 then 29 else if y mod 100 = 0 then 28
         else if y mod 4 = 0 then 29 else 28)
      else if m \<in> set [4, 6, 9, 11] then 30 else 31)"

definition strptime_ymd :: "string \<Rightarrow> (nat \<times> nat \<times> nat) option" where
  "strptime_ymd s =
     (let ys = take 4 s in
      if length ys = 4 \<and> list_all is_digit ys then
        (case drop 4 s of
           [] \<Rightarrow> None
         | c # r1 \<Rightarrow>
             if c = CHR ''-'' then
               (case dropWhile (\<lambda>x. x \<noteq> CHR ''-'') r1 of
                  [] \<Rightarrow> None
                | c2 # ds \<Rightarrow>
                    (case (month_token (takeWhile (\<lambda>x. x \<noteq> CHR ''-'') r1), day_token ds) of
                       (Some m, Some d) \<Rightarrow>
                         (let y = nat_of_digits ys
                          in if 1 \<le> y \<and> d \<le> days_in_month y m then Some (y, m, d) else None)
                     | _ \<Rightarrow> None))
             else None)
      else None)"

text \<open>
  A row of \<^verbatim>\<open>csv.DictReader\<close>; \<^verbatim>\<open>row.get(k, '')\<close> of a column that is absent, or
  that a short row leaves \<^verbatim>\<open>None\<close>, is false in both cases and read as the empty
  string.
\<close>

type_synonym csv_row = "(string \<times> string) list"

definition row_get :: "csv_row \<Rightarrow> string \<Rightarrow> string" where
  "row_get row k = (case map_of row k of None \<Rightarrow> [] | Some v \<Rightarrow> v)"

definition safe_float :: "(string \<Rightarrow> real option) \<Rightarrow> string \<Rightarrow> real option" where
  "safe_float to_float v = (if v \<noteq> [] then to_float v else None)"

definition opt_num :: "real option \<Rightarrow> json" where
  "opt_num x = (case x of None \<Rightarrow> JNull | Some v \<Rightarrow> JNum v)"

text \<open>The body of the loop over the rows: the dictionary of years after one more row.\<close>

definition epa_add_row ::
  "(string \<Rightarrow> real option) \<Rightarrow> (string \<times> json list) list \<Rightarrow> csv_row \<Rightarrow> (string \<times> json list) list" where
  "epa_add_row to_float yearly_data row =
     (let date_str = row_get row ''Date'' in
      if date_str = [] then yearly_data
      else (case strptime_ymd date_str of
              None \<Rightarrow> yearly_data
            | Some (y, m, d) \<Rightarrow>
                group_add (py_str (int y))
                  (JObj [(''date'', JStr date_str),
                         (''ph'', opt_num (safe_float to_float (row_get row ''pH''))),
                         (''dissolved_oxygen_mg_l'',
                            opt_num (safe_float to_float (row_get row ''Dissolved_Oxygen''))),
                         (''turbidity_ntu'', opt_num (safe_float to_float (row_get row ''Turbidity''))),
                         (''conductivity_us_cm'',
                            opt_num (safe_float to_float (row_get row ''Conductivity''))),
                         (''quality'', JStr ''good'')])
                  yearly_data))"

definition epa_record ::
  "string \<Rightarrow> int \<Rightarrow> string \<Rightarrow> string \<times> json list \<Rightarrow> py_error + (string \<times> json) option" where
  "epa_record now location_id location_name entry =
     (case entry of (year, year_data) \<Rightarrow>
        (case py_int year of
           None \<Rightarrow> Inl ValueError
         | Some y \<Rightarrow>
             Inr (Some
               (''./data/04-quality/location-'' @ py_str location_id @ ''-'' @ year @ ''.json'',
                JObj [(''location_id'', JInt location_id),
                      (''location_name'', JStr location_name),
                      (''year'', JInt y),
                      (''parameter'', JStr ''water_quality''),
                      (''data'', JArr year_data),
                      (''source'', JStr ''EPA National Aquatic Resource Surveys''),
                      (''last_updated'', JStr now)]))))"

definition process_epa_water_quality_data ::
  "(string \<Rightarrow> real option) \<Rightarrow> string \<Rightarrow> int \<Rightarrow> string \<Rightarrow> csv_row list
     \<Rightarrow> (string \<times> json) list \<times> py_error option" where
  "process_epa_water_quality_data to_float now location_id location_name rows =
     write_each (epa_record now location_id location_name)
       (foldl (epa_add_row to_float) [] rows)"

subsection \<open>The file system\<close>

text \<open>
  What the scripts see of the disk. \<open>fs_listing p\<close> is \<^verbatim>\<open>os.listdir(p)\<close>, in the
  order the system returns the names, and \<open>None\<close> when \<^verbatim>\<open>os.path.exists(p)\<close> is
  false. \<open>fs_files p\<close> is \<open>None\<close> when no file is at \<open>p\<close>, \<open>Some None\<close> for a file
  \<^verbatim>\<open>json.load\<close> rejects, and \<open>Some (Some j)\<close> for a file that holds \<open>j\<close>.
\<close>

record filesystem =
  fs_listing :: "string \<Rightarrow> string list option"
  fs_files :: "string \<Rightarrow> json option option"

subsection \<open>More builtins on strings\<close>

text \<open>\<^verbatim>\<open>sub in s\<close>, \<^verbatim>\<open>s.endswith(suf)\<close>, \<^verbatim>\<open>s.replace(old, new)\<close> for a non-empty
  \<open>old\<close>, and \<^verbatim>\<open>s.split(sep)\<close> for a separator of one character.\<close>

fun contains :: "string \<Rightarrow> string \<Rightarrow> bool" where
  "contains sub [] = (sub = [])"
| "contains sub (c # cs) = (prefix sub (c # cs) \<or> contains sub cs)"

definition endswith :: "string \<Rightarrow> string \<Rightarrow> bool" where
  "endswith s suf = prefix (rev suf) (rev s)"

fun replace :: "string \<Rightarrow> string \<Rightarrow> string \<Rightarrow> string" where
  "replace old new [] = []"
| "replace old new (c # cs) =
     (if old \<noteq> [] \<and> prefix old (c # cs)
      then new @ replace old new (drop (length old - 1) cs)
      else c # replace old new cs)"

fun split :: "char \<Rightarrow> string \<Rightarrow> string list" where
  "split sep [] = [[]]"
| "split sep (c # cs) =
     (if c = sep then [] # split sep cs
      else (case split sep cs of
              [] \<Rightarrow> [[c]]
            | p # ps \<Rightarrow> (c # p) # ps))"

subsection \<open>The manifest index: \<^verbatim>\<open>update_manifest\<close>\<close>

text \<open>\<^verbatim>\<open>d[k] = v\<close> on a dictionary: an old key keeps its place, a new key goes last.\<close>

fun dict_set :: "'k \<Rightarrow> 'v \<Rightarrow> ('k \<times> 'v) list \<Rightarrow> ('k \<times> 'v) list" where
  "dict_set k v [] = [(k, v)]"
| "dict_set k v ((k', v') # rest) =
     (if k = k' then (k', v) # rest else (k', v') # dict_set k v rest)"

text \<open>One value of \<^verbatim>\<open>organized\<close>: the path of the watershed file and, for each of the
  four categories, the dictionary from year to path.\<close>

record entry =
  e_watershed :: string
  e_temperature :: "(string \<times> string) list"
  e_flow :: "(string \<times> string) list"
  e_quality :: "(string \<times> string) list"
  e_stage :: "(string \<times> string) list"

text \<open>The four local variables of the scan; the two sets only ever grow, are counted and
  are sorted.\<close>

record scan =
  total_files :: nat
  locations_covered :: "int set"
  years_covered :: "int set"
  organized :: "(string \<times> entry) list"

definition data_dirs :: "string list" where
  "data_dirs = [''02-watersheds'', ''03-temperature'', ''04-quality'', ''05-flow'', ''06-stage'']"

text \<open>
  The lines under \<^verbatim>\<open># Build organized structure\<close> and
  \<^verbatim>\<open># Add file to organized structure\<close>, the same in both processors.
\<close>

definition add_organized :: "string \<Rightarrow> int \<Rightarrow> int \<Rightarrow> (string \<times> entry) list \<Rightarrow> (string \<times> entry) list" where
  "add_organized data_dir location_id year org =
     (let key = py_str location_id;
          org1 =
            (if map_of org key = None then
               org @ [(key,
                       \<lparr>e_watershed = ''data/02-watersheds/location-'' @ py_str location_id @ ''.json'',
                        e_temperature = [], e_flow = [], e_quality = [], e_stage = []\<rparr>)]
             else org);
          path = (\<lambda>dir. ''data/'' @ dir @ ''/location-'' @ py_str location_id @ ''-''
                     @ py_str year @ ''.json'')
      in case map_of org1 key of
           None \<Rightarrow> org1
         | Some e \<Rightarrow>
             if data_dir = ''03-temperature'' then
               dict_set key (e\<lparr>e_temperature :=
                  dict_set (py_str year) (path ''03-temperature'') (e_temperature e)\<rparr>) org1
             else if data_dir = ''05-flow'' then
               dict_set key (e\<lparr>e_flow :=
                  dict_set (py_str year) (path ''05-flow'') (e_flow e)\<rparr>) org1
             else if data_dir = ''04-quality'' then
               dict_set key (e\<lparr>e_quality :=
                  dict_set (py_str year) (path ''04-quality'') (e_quality e)\<rparr>) org1
             else if data_dir = ''06-stage'' then
               dict_set key (e\<lparr>e_stage :=
                  dict_set (py_str year) (path ''06-stage'') (e_stage e)\<rparr>) org1
             else org1)"

text \<open>
  The body of \<^verbatim>\<open>for filename in files\<close> in \<^verbatim>\<open>USGSRawDataProcessor\<close>: at least three
  parts are asked for before anything is parsed. A \<^verbatim>\<open>ValueError\<close> of \<^verbatim>\<open>int\<close> is
  caught and leaves what was updated before it.
\<close>

definition usgs_scan_file :: "string \<Rightarrow> scan \<Rightarrow> string \<Rightarrow> scan" where
  "usgs_scan_file data_dir sc filename =
     (if contains ''location-'' filename then
        (let parts = split CHR ''-'' (replace ''.json'' [] filename) in
         if 3 \<le> length parts then
           (case py_int (parts ! 1) of
              None \<Rightarrow> sc
            | Some location_id \<Rightarrow>
                (let sc1 = sc\<lparr>locations_covered := insert location_id (locations_covered sc)\<rparr>
                 in case py_int (parts ! 2) of
                      None \<Rightarrow> sc1
                    | Some year \<Rightarrow>
                        sc1\<lparr>years_covered := insert year (years_covered sc1),
                            organized := add_organized data_dir location_id year (organized sc1)\<rparr>))
         else sc)
      else sc)"

text \<open>
  The same body in \<^verbatim>\<open>WaterDataProcessor\<close>: two parts are enough for the location, the
  year and the index need a third.
\<close>

definition water_scan_file :: "string \<Rightarrow> scan \<Rightarrow> string \<Rightarrow> scan" where
  "water_scan_file data_dir sc filename =
     (if contains ''location-'' filename then
        (let parts = split CHR ''-'' (replace ''.json'' [] filename) in
         if 2 \<le> length parts then
           (case py_int (parts ! 1) of
              None \<Rightarrow> sc
            | Some location_id \<Rightarrow>
                (let sc1 = sc\<lparr>locations_covered := insert location_id (locations_covered sc)\<rparr>
                 in if 3 \<le> length parts then
                      (case py_int (parts ! 2) of
                         None \<Rightarrow> sc1
                       | Some year \<Rightarrow>
                           sc1\<lparr>years_covered := insert year (years_covered sc1),
                               organized :=
                                 add_organized data_dir location_id year (organized sc1)\<rparr>)
                    else sc1))
         else sc)
      else sc)"

text \<open>The body of \<^verbatim>\<open>for data_dir in [...]\<close>, with the body of the inner loop as an
  argument.\<close>

definition scan_dir :: "(string \<Rightarrow> scan \<Rightarrow> string \<Rightarrow> scan) \<Rightarrow> filesystem \<Rightarrow> scan \<Rightarrow> string \<Rightarrow> scan" where
  "scan_dir scan_file fs sc data_dir =
     (case fs_listing fs (''./data/'' @ data_dir) of
        None \<Rightarrow> sc
      | Some names \<Rightarrow>
          (let files = filter (\<lambda>f. endswith f ''.json'') names
           in foldl (scan_file data_dir)
                (sc\<lparr>total_files := total_files sc + length files\<rparr>) files))"

definition scan_all :: "(string \<Rightarrow> scan \<Rightarrow> string \<Rightarrow> scan) \<Rightarrow> filesystem \<Rightarrow> scan" where
  "scan_all scan_file fs =
     foldl (scan_dir scan_file fs)
       \<lparr>total_files = 0, locations_covered = {}, years_covered = {}, organized = []\<rparr>
       data_dirs"

definition paths_json :: "(string \<times> string) list \<Rightarrow> json" where
  "paths_json d = JObj (map (\<lambda>(y, p). (y, JStr p)) d)"

definition entry_json :: "entry \<Rightarrow> json" where
  "entry_json e =
     JObj [(''watershed'', JStr (e_watershed e)),
           (''temperature'', paths_json (e_temperature e)),
           (''flow'', paths_json (e_flow e)),
           (''quality'', paths_json (e_quality e)),
           (''stage'', paths_json (e_stage e))]"

definition organized_json :: "(string \<times> entry) list \<Rightarrow> json" where
  "organized_json org = JObj (map (\<lambda>(k, e). (k, entry_json e)) org)"

text \<open>
  The three assignments \<^verbatim>\<open>manifest["statistics"][...] = ...\<close> under
  \<^verbatim>\<open># Update manifest statistics\<close>, on the dictionary of statistics.
\<close>

definition set_statistics :: "scan \<Rightarrow> (string \<times> json) list \<Rightarrow> (string \<times> json) list" where
  "set_statistics sc st =
     dict_set ''years_covered'' (JArr (map JInt (sorted_list_of_set (years_covered sc))))
       (dict_set ''locations_covered'' (JInt (int (card (locations_covered sc))))
          (dict_set ''total_files'' (JInt (int (total_files sc))) st))"

text \<open>
  The five assignments to the manifest. It has to be a dictionary with a dictionary under
  \<^verbatim>\<open>statistics\<close>; anything else raises.
\<close>

definition set_manifest :: "string \<Rightarrow> scan \<Rightarrow> json \<Rightarrow> py_error + json" where
  "set_manifest now sc manifest =
     (case manifest of
        JObj m \<Rightarrow>
          (case map_of m ''statistics'' of
             None \<Rightarrow> Inl KeyError
           | Some (JObj st) \<Rightarrow>
               Inr (JObj
                 (dict_set ''organized'' (organized_json (organized sc))
                    (dict_set ''last_updated'' (JStr now)
                       (dict_set ''statistics'' (JObj (set_statistics sc st)) m))))
           | Some other \<Rightarrow> Inl TypeError)
      | other \<Rightarrow> Inl TypeError)"

text \<open>
  \<^verbatim>\<open>update_manifest\<close>: the manifest is read, the data directories are scanned, the
  manifest is written back. An exception leaves the function before anything is
  written.
\<close>

definition update_manifest ::
  "(string \<Rightarrow> scan \<Rightarrow> string \<Rightarrow> scan) \<Rightarrow> string \<Rightarrow> filesystem \<Rightarrow> py_error + filesystem" where
  "update_manifest scan_file now fs =
     (case fs_files fs ''./manifest.json'' of
        None \<Rightarrow> Inl FileNotFoundError
      | Some None \<Rightarrow> Inl JSONDecodeError
      | Some (Some manifest) \<Rightarrow>
          (case set_manifest now (scan_all scan_file fs) manifest of
             Inl e \<Rightarrow> Inl e
           | Inr manifest' \<Rightarrow>
               Inr (fs\<lparr>fs_files := (fs_files fs)(''./manifest.json'' := Some (Some manifest'))\<rparr>)))"

definition usgs_update_manifest :: "string \<Rightarrow> filesystem \<Rightarrow> py_error + filesystem" where
  "usgs_update_manifest = update_manifest usgs_scan_file"

definition water_update_manifest :: "string \<Rightarrow> filesystem \<Rightarrow> py_error + filesystem" where
  "water_update_manifest = update_manifest water_scan_file"

text \<open>The member \<open>k\<close> of the manifest that is on disk.\<close>

definition manifest_block :: "filesystem \<Rightarrow> string \<Rightarrow> json option" where
  "manifest_block fs k =
     (case fs_files fs ''./manifest.json'' of
        Some (Some (JObj m)) \<Rightarrow> map_of m k
      | _ \<Rightarrow> None)"

subsection \<open>Python operators on loaded JSON\<close>

text \<open>
  A file of the data directories can hold any JSON value, so the operators the validator
  applies are modelled on every value, with the \<^verbatim>\<open>TypeError\<close> they raise. An object
  returned by \<^verbatim>\<open>json.load\<close> has no key twice.
\<close>

text \<open>\<^verbatim>\<open>k in x\<close> for a string \<open>k\<close>: a key of a dictionary, an element of a list, a
  substring of a string.\<close>

definition py_in :: "string \<Rightarrow> json \<Rightarrow> py_error + bool" where
  "py_in k x =
     (case x of
        JObj kvs \<Rightarrow> Inr (k \<in> set (map fst kvs))
      | JArr xs \<Rightarrow> Inr (JStr k \<in> set xs)
      | JStr s \<Rightarrow> Inr (contains k s)
      | _ \<Rightarrow> Inl TypeError)"

text \<open>\<^verbatim>\<open>x[k]\<close> for a string \<open>k\<close>.\<close>

definition py_getitem :: "json \<Rightarrow> string \<Rightarrow> py_error + json" where
  "py_getitem x k =
     (case x of
        JObj kvs \<Rightarrow> (case map_of kvs k of None \<Rightarrow> Inl KeyError | Some v \<Rightarrow> Inr v)
      | _ \<Rightarrow> Inl TypeError)"

text \<open>\<^verbatim>\<open>for item in x\<close>: the elements of a list, the keys of a dictionary, the
  characters of a string.\<close>

definition py_iter :: "json \<Rightarrow> py_error + json list" where
  "py_iter x =
     (case x of
        JArr xs \<Rightarrow> Inr xs
      | JObj kvs \<Rightarrow> Inr (map (\<lambda>kv. JStr (fst kv)) kvs)
      | JStr s \<Rightarrow> Inr (map (\<lambda>c. JStr [c]) s)
      | _ \<Rightarrow> Inl TypeError)"

text \<open>\<^verbatim>\<open>isinstance(x, int)\<close> and \<^verbatim>\<open>isinstance(x, (int, float))\<close>; a Boolean is an
  \<^verbatim>\<open>int\<close> in Python.\<close>

definition is_int :: "json \<Rightarrow> bool" where
  "is_int x = (case x of JInt i \<Rightarrow> True | JBool b \<Rightarrow> True | _ \<Rightarrow> False)"

definition is_number :: "json \<Rightarrow> bool" where
  "is_number x = (case x of JInt i \<Rightarrow> True | JBool b \<Rightarrow> True | JNum r \<Rightarrow> True | _ \<Rightarrow> False)"

definition num_value :: "json \<Rightarrow> real" where
  "num_value x =
     (case x of
        JInt i \<Rightarrow> of_int i
      | JNum r \<Rightarrow> r
      | JBool b \<Rightarrow> (if b then 1 else 0)
      | _ \<Rightarrow> 0)"

text \<open>\<^verbatim>\<open>x == y\<close>: numbers by value, lists element by element, dictionaries key by key.\<close>

fun py_eq :: "json \<Rightarrow> json \<Rightarrow> bool" where
  "py_eq (JArr xs) y =
     (case y of JArr ys \<Rightarrow> list_all2 py_eq xs ys | _ \<Rightarrow> False)"
| "py_eq (JObj kvs) y =
     (case y of
        JObj kvs' \<Rightarrow>
          set (map fst kvs) = set (map fst kvs') \<and>
          list_all (\<lambda>(k, v). case map_of kvs' k of None \<Rightarrow> False | Some v' \<Rightarrow> py_eq v v') kvs
      | _ \<Rightarrow> False)"
| "py_eq (JStr s) y = (case y of JStr t \<Rightarrow> s = t | _ \<Rightarrow> False)"
| "py_eq JNull y = (case y of JNull \<Rightarrow> True | _ \<Rightarrow> False)"
| "py_eq x y = (is_number x \<and> is_number y \<and> num_value x = num_value y)"

text \<open>
  \<^verbatim>\<open>x <= y\<close>: numbers by value, strings in lexicographic order, lists at their first
  elements that are not equal, or by length when one is a prefix of the other. Every
  other pair is a \<^verbatim>\<open>TypeError\<close>.
\<close>

fun py_le :: "json \<Rightarrow> json \<Rightarrow> py_error + bool"
  and list_le :: "json list \<Rightarrow> json list \<Rightarrow> py_error + bool" where
  "py_le (JArr xs) y = (case y of JArr ys \<Rightarrow> list_le xs ys | _ \<Rightarrow> Inl TypeError)"
| "py_le (JStr s) y = (case y of JStr t \<Rightarrow> Inr (s \<le> t) | _ \<Rightarrow> Inl TypeError)"
| "py_le (JObj kvs) y = Inl TypeError"
| "py_le JNull y = Inl TypeError"
| "py_le x y =
     (if is_number x \<and> is_number y then Inr (num_value x \<le> num_value y) else Inl TypeError)"
| "list_le [] ys = Inr True"
| "list_le (x # xs) [] = Inr False"
| "list_le (x # xs) (y # ys) = (if py_eq x y then list_le xs ys else py_le x y)"

subsection \<open>The validator\<close>

text \<open>
  An entry of \<^verbatim>\<open>errors\<close> or \<^verbatim>\<open>warnings\<close>: the file and the \<^verbatim>\<open>type\<close>. The text
  of the message, which quotes values and exceptions, is not modelled.
\<close>

record issue =
  issue_file :: string
  issue_type :: string

record validation_results =
  files_checked :: nat
  files_valid :: nat
  files_invalid :: nat
  errors :: "issue list"
  warnings :: "issue list"

definition add_error :: "string \<Rightarrow> string \<Rightarrow> validation_results \<Rightarrow> validation_results" where
  "add_error file_path ty r = r\<lparr>errors := errors r @ [\<lparr>issue_file = file_path, issue_type = ty\<rparr>]\<rparr>"

definition add_warning :: "string \<Rightarrow> string \<Rightarrow> validation_results \<Rightarrow> validation_results" where
  "add_warning file_path ty r =
     r\<lparr>warnings := warnings r @ [\<lparr>issue_file = file_path, issue_type = ty\<rparr>]\<rparr>"

text \<open>
  A validation function returns the results as it leaves them, and either the Boolean it
  returns or the exception it raises.
\<close>

type_synonym outcome = "validation_results \<times> (py_error + bool)"

text \<open>The loop \<^verbatim>\<open>for field in required_fields: if field not in data: ... return False\<close>;
  \<open>Inr True\<close> when every field is there.\<close>

fun require_fields :: "string \<Rightarrow> string list \<Rightarrow> json \<Rightarrow> validation_results \<Rightarrow> outcome" where
  "require_fields file_path [] data r = (r, Inr True)"
| "require_fields file_path (field # rest) data r =
     (case py_in field data of
        Inl e \<Rightarrow> (r, Inl e)
      | Inr True \<Rightarrow> require_fields file_path rest data r
      | Inr False \<Rightarrow> (add_error file_path ''missing_field'' r, Inr False))"

definition validate_basic_structure :: "json \<Rightarrow> string \<Rightarrow> validation_results \<Rightarrow> outcome" where
  "validate_basic_structure data file_path r =
     (let required_fields =
            (if contains ''watershed'' file_path
             then [''location_id'', ''location_name'', ''data_sources'', ''last_updated'']
             else [''location_id'', ''location_name'', ''year'', ''parameter'', ''source'',
                   ''last_updated''])
      in case require_fields file_path required_fields data r of
           (r1, Inl e) \<Rightarrow> (r1, Inl e)
         | (r1, Inr False) \<Rightarrow> (r1, Inr False)
         | (r1, Inr True) \<Rightarrow>
             (case py_getitem data ''location_id'' of
                Inl e \<Rightarrow> (r1, Inl e)
              | Inr loc \<Rightarrow>
                  if \<not> is_int loc then (add_error file_path ''type_error'' r1, Inr False)
                  else if \<not> contains ''watershed'' file_path then
                    (case py_getitem data ''year'' of
                       Inl e \<Rightarrow> (r1, Inl e)
                     | Inr y \<Rightarrow>
                         if \<not> is_int y then (add_error file_path ''type_error'' r1, Inr False)
                         else (r1, Inr True))
                  else (r1, Inr True)))"

text \<open>
  The loop over \<^verbatim>\<open>data['data']\<close> in \<^verbatim>\<open>validate_temperature_data\<close> and in
  \<^verbatim>\<open>validate_flow_data\<close>, which differ in the field and in the range: a missing field
  or a value that is not a number is an error and ends the validation, a value outside
  \<open>[lo, hi]\<close> is a warning.
\<close>

fun check_values ::
  "string \<Rightarrow> string \<Rightarrow> real \<Rightarrow> real \<Rightarrow> json list \<Rightarrow> validation_results \<Rightarrow> outcome" where
  "check_values file_path field lo hi [] r = (r, Inr True)"
| "check_values file_path field lo hi (day # days) r =
     (case py_in field day of
        Inl e \<Rightarrow> (r, Inl e)
      | Inr False \<Rightarrow> (add_error file_path ''missing_field'' r, Inr False)
      | Inr True \<Rightarrow>
          (case py_getitem day field of
             Inl e \<Rightarrow> (r, Inl e)
           | Inr v \<Rightarrow>
               if \<not> is_number v then (add_error file_path ''invalid_value'' r, Inr False)
               else check_values file_path field lo hi days
                      (if num_value v < lo \<or> hi < num_value v
                       then add_warning file_path ''unusual_value'' r else r)))"

text \<open>The test \<^verbatim>\<open>'mean' in stats and 'min' in stats and 'max' in stats\<close>.\<close>

definition has_mean_min_max :: "json \<Rightarrow> py_error + bool" where
  "has_mean_min_max stats =
     (case py_in ''mean'' stats of
        Inl e \<Rightarrow> Inl e
      | Inr False \<Rightarrow> Inr False
      | Inr True \<Rightarrow>
          (case py_in ''min'' stats of
             Inl e \<Rightarrow> Inl e
           | Inr False \<Rightarrow> Inr False
           | Inr True \<Rightarrow> py_in ''max'' stats))"

text \<open>The chained comparison \<^verbatim>\<open>stats['min'] <= stats['mean'] <= stats['max']\<close>.\<close>

definition min_mean_max_ordered :: "json \<Rightarrow> py_error + bool" where
  "min_mean_max_ordered stats =
     (case py_getitem stats ''min'' of
        Inl e \<Rightarrow> Inl e
      | Inr lo \<Rightarrow>
          (case py_getitem stats ''mean'' of
             Inl e \<Rightarrow> Inl e
           | Inr mid \<Rightarrow>
               (case py_le lo mid of
                  Inl e \<Rightarrow> Inl e
                | Inr False \<Rightarrow> Inr False
                | Inr True \<Rightarrow>
                    (case py_getitem stats ''max'' of
                       Inl e \<Rightarrow> Inl e
                     | Inr hi \<Rightarrow> py_le mid hi))))"

definition check_statistics :: "json \<Rightarrow> string \<Rightarrow> validation_results \<Rightarrow> outcome" where
  "check_statistics data file_path r =
     (case py_in ''statistics'' data of
        Inl e \<Rightarrow> (r, Inl e)
      | Inr False \<Rightarrow> (r, Inr True)
      | Inr True \<Rightarrow>
          (case py_getitem data ''statistics'' of
             Inl e \<Rightarrow> (r, Inl e)
           | Inr stats \<Rightarrow>
               (case has_mean_min_max stats of
                  Inl e \<Rightarrow> (r, Inl e)
                | Inr False \<Rightarrow> (r, Inr True)
                | Inr True \<Rightarrow>
                    (case min_mean_max_ordered stats of
                       Inl e \<Rightarrow> (r, Inl e)
                     | Inr True \<Rightarrow> (r, Inr True)
                     | Inr False \<Rightarrow> (add_warning file_path ''statistics_warning'' r, Inr True)))))"

text \<open>The test \<^verbatim>\<open>'data' not in data\<close> and the read of \<^verbatim>\<open>data['data']\<close> for the
  loop, the same in the three validators of time series: \<open>Inr None\<close> is the error
  \<^verbatim>\<open>missing_data\<close>.\<close>

definition data_array :: "json \<Rightarrow> py_error + json list option" where
  "data_array data =
     (case py_in ''data'' data of
        Inl e \<Rightarrow> Inl e
      | Inr False \<Rightarrow> Inr None
      | Inr True \<Rightarrow>
          (case py_getitem data ''data'' of
             Inl e \<Rightarrow> Inl e
           | Inr d \<Rightarrow> (case py_iter d of Inl e \<Rightarrow> Inl e | Inr days \<Rightarrow> Inr (Some days))))"

definition validate_temperature_data :: "json \<Rightarrow> string \<Rightarrow> validation_results \<Rightarrow> outcome" where
  "validate_temperature_data data file_path r =
     (case data_array data of
        Inl e \<Rightarrow> (r, Inl e)
      | Inr None \<Rightarrow> (add_error file_path ''missing_data'' r, Inr False)
      | Inr (Some days) \<Rightarrow>
          (case check_values file_path ''temperature_c'' (- 5) 25 days r of
             (r1, Inr True) \<Rightarrow> check_statistics data file_path r1
           | other \<Rightarrow> other))"

definition validate_flow_data :: "json \<Rightarrow> string \<Rightarrow> validation_results \<Rightarrow> outcome" where
  "validate_flow_data data file_path r =
     (case data_array data of
        Inl e \<Rightarrow> (r, Inl e)
      | Inr None \<Rightarrow> (add_error file_path ''missing_data'' r, Inr False)
      | Inr (Some days) \<Rightarrow> check_values file_path ''flow_cfs'' 0 50000 days r)"

text \<open>\<^verbatim>\<open>any(param in day for param in quality_params)\<close>: the first parameter found
  ends the search, and so does the first exception.\<close>

fun any_param :: "string list \<Rightarrow> json \<Rightarrow> py_error + bool" where
  "any_param [] day = Inr False"
| "any_param (p # ps) day =
     (case py_in p day of
        Inl e \<Rightarrow> Inl e
      | Inr True \<Rightarrow> Inr True
      | Inr False \<Rightarrow> any_param ps day)"

definition quality_params :: "string list" where
  "quality_params = [''ph'', ''dissolved_oxygen_mg_l'', ''turbidity_ntu'', ''conductivity_us_cm'']"

fun check_quality :: "string \<Rightarrow> json list \<Rightarrow> validation_results \<Rightarrow> outcome" where
  "check_quality file_path [] r = (r, Inr True)"
| "check_quality file_path (day # days) r =
     (case any_param quality_params day of
        Inl e \<Rightarrow> (r, Inl e)
      | Inr False \<Rightarrow> (add_error file_path ''missing_field'' r, Inr False)
      | Inr True \<Rightarrow>
          (case py_in ''ph'' day of
             Inl e \<Rightarrow> (r, Inl e)
           | Inr False \<Rightarrow> check_quality file_path days r
           | Inr True \<Rightarrow>
               (case py_getitem day ''ph'' of
                  Inl e \<Rightarrow> (r, Inl e)
                | Inr ph \<Rightarrow>
                    if \<not> is_number ph then (add_error file_path ''invalid_value'' r, Inr False)
                    else check_quality file_path days
                           (if num_value ph < 4 \<or> 10 < num_value ph
                            then add_warning file_path ''unusual_value'' r else r))))"

definition validate_quality_data :: "json \<Rightarrow> string \<Rightarrow> validation_results \<Rightarrow> outcome" where
  "validate_quality_data data file_path r =
     (case data_array data of
        Inl e \<Rightarrow> (r, Inl e)
      | Inr None \<Rightarrow> (add_error file_path ''missing_data'' r, Inr False)
      | Inr (Some days) \<Rightarrow> check_quality file_path days r)"

definition validate_watershed_data :: "json \<Rightarrow> string \<Rightarrow> validation_results \<Rightarrow> outcome" where
  "validate_watershed_data data file_path r =
     (case require_fields file_path [''drainage_area_sq_miles'', ''primary_tributaries''] data r of
        (r1, Inr True) \<Rightarrow>
          (case py_getitem data ''drainage_area_sq_miles'' of
             Inl e \<Rightarrow> (r1, Inl e)
           | Inr a \<Rightarrow>
               if \<not> is_number a then (add_error file_path ''type_error'' r1, Inr False)
               else if num_value a \<le> 0
                 then (add_warning file_path ''unusual_value'' r1, Inr True)
               else (r1, Inr True))
      | other \<Rightarrow> other)"

text \<open>The chain \<^verbatim>\<open>if directory_name == "03-temperature": ... elif ...\<close> of
  \<^verbatim>\<open>validate_file\<close>; a directory it does not name has no validation of its own.\<close>

definition validate_for_directory ::
  "string \<Rightarrow> json \<Rightarrow> string \<Rightarrow> validation_results \<Rightarrow> outcome" where
  "validate_for_directory directory_name data file_path r =
     (if directory_name = ''03-temperature'' then validate_temperature_data data file_path r
      else if directory_name = ''05-flow'' then validate_flow_data data file_path r
      else if directory_name = ''04-quality'' then validate_quality_data data file_path r
      else if directory_name = ''02-watersheds'' then validate_watershed_data data file_path r
      else (r, Inr True))"

text \<open>What \<^verbatim>\<open>validate_file\<close> does once a validation function has returned or raised.\<close>

definition count_invalid :: "validation_results \<Rightarrow> validation_results" where
  "count_invalid r = r\<lparr>files_invalid := files_invalid r + 1\<rparr>"

text \<open>
  The state of the validator and of the disk it reads. \<^verbatim>\<open>validate_file\<close> returns the
  state it leaves.
\<close>

record validator =
  disk :: filesystem
  validation_results :: validation_results

definition validate_file :: "string \<Rightarrow> string \<Rightarrow> validator \<Rightarrow> validator" where
  "validate_file file_path directory_name v =
     (let r0 = (validation_results v)\<lparr>files_checked := files_checked (validation_results v) + 1\<rparr>;
          unexpected = (\<lambda>r. count_invalid (add_error file_path ''unexpected_error'' r))
      in v\<lparr>validation_results :=
           (case fs_files (disk v) file_path of
              None \<Rightarrow> unexpected r0
            | Some None \<Rightarrow> count_invalid (add_error file_path ''json_error'' r0)
            | Some (Some data) \<Rightarrow>
                (case validate_basic_structure data file_path r0 of
                   (r1, Inl e) \<Rightarrow> unexpected r1
                 | (r1, Inr False) \<Rightarrow> count_invalid r1
                 | (r1, Inr True) \<Rightarrow>
                     (case validate_for_directory directory_name data file_path r1 of
                        (r2, Inl e) \<Rightarrow> unexpected r2
                      | (r2, Inr False) \<Rightarrow> count_invalid r2
                      | (r2, Inr True) \<Rightarrow> r2\<lparr>files_valid := files_valid r2 + 1\<rparr>)))\<rparr>)"


subsection \<open>What is on disk after the writes\<close>

text \<open>\<^verbatim>\<open>json.dump(afca_data, f)\<close> for each file a writer returns.\<close>

definition dump :: "(string \<times> afca_data) list \<Rightarrow> (string \<times> json) list" where
  "dump ws = map (\<lambda>(p, r). (p, afca_json r)) ws"

definition written :: "py_error + 'a option \<Rightarrow> 'a list" where
  "written res = (case res of Inr (Some w) \<Rightarrow> [w] | _ \<Rightarrow> [])"

text \<open>The keys of the member \<^verbatim>\<open>statistics\<close> of a record.\<close>

definition statistics_keys :: "json \<Rightarrow> string list" where
  "statistics_keys j =
     (case j of
        JObj kvs \<Rightarrow> (case map_of kvs ''statistics'' of None \<Rightarrow> [] | Some st \<Rightarrow> json_keys st)
      | _ \<Rightarrow> [])"

section \<open>The specification's terms\<close>

text \<open>The fields the specification gives every canonical record.\<close>

definition schema_fields :: "string list" where
  "schema_fields =
     [''location_id'', ''location_name'', ''year'', ''parameter'', ''unit'', ''data'',
      ''statistics'', ''source'', ''last_updated'']"












section \<open>Concrete inputs\<close>

text \<open>
  A data directory with two temperature files and no watershed file; the name of the
  second file writes the location with a leading zero. And a manifest to rebuild.
\<close>

definition old_manifest :: json where
  "old_manifest =
     JObj [(''version'', JStr ''1.0''), (''dataset_name'', JStr ''afca-watershed''),
           (''statistics'',
            JObj [(''total_files'', JInt 0), (''locations_covered'', JInt 0),
                  (''years_covered'', JArr [])]),
           (''organized'', JObj []),
           (''last_updated'', JStr ''2023-01-01T00:00:00'')]"


text \<open>The same directory with the convention followed, and the watershed file there.\<close>

definition conventional :: filesystem where
  "conventional =
     \<lparr>fs_listing =
        [''./data/02-watersheds'' \<mapsto> [''location-410.json''],
         ''./data/03-temperature'' \<mapsto> [''location-410-2023.json'', ''notes.txt'']],
      fs_files = [''./manifest.json'' \<mapsto> Some old_manifest]\<rparr>"


text \<open>The manifest after a rebuild over that directory at the time \<open>now\<close>, and the
  disk with it.\<close>

definition rebuilt_manifest :: "string \<Rightarrow> json" where
  "rebuilt_manifest now =
     JObj [(''version'', JStr ''1.0''), (''dataset_name'', JStr ''afca-watershed''),
           (''statistics'',
            JObj [(''total_files'', JInt 2), (''locations_covered'', JInt 1),
                  (''years_covered'', JArr [JInt 2023])]),
           (''organized'',
            JObj [(''410'',
                   JObj [(''watershed'', JStr ''data/02-watersheds/location-410.json''),
                         (''temperature'',
                          JObj [(''2023'', JStr ''data/03-temperature/location-410-2023.json'')]),
                         (''flow'', JObj []), (''quality'', JObj []), (''stage'', JObj [])])]),
           (''last_updated'', JStr now)]"

definition rebuilt :: "string \<Rightarrow> filesystem" where
  "rebuilt now =
     conventional\<lparr>fs_files := (fs_files conventional)
                     (''./manifest.json'' := Some (Some (rebuilt_manifest now)))\<rparr>"


text \<open>Two readings of one day, the second with the qualifier codes \<open>codes\<close>.\<close>

definition one_day :: "string list \<Rightarrow> usgs_value list" where
  "one_day codes =
     [\<lparr>dateTime = Some ''2023-06-01T00:00:00'', value_str = Some ''12.0'', qualifiers = Some []\<rparr>,
      \<lparr>dateTime = Some ''2023-06-01T12:00:00'', value_str = Some ''14.0'',
       qualifiers = Some (map Some codes)\<rparr>]"




text \<open>A conductivity series of the Kenai River gauge: two days, readings 1 and 2.\<close>

definition conductivity_series :: series where
  "conductivity_series =
     \<lparr>site_code = ''15276000'', site_name = ''Kenai River'', variable_code = ''00095'',
      series_values =
        [\<lparr>dateTime = Some ''2023-06-01T00:00:00'', value_str = Some ''1'', qualifiers = None\<rparr>,
         \<lparr>dateTime = Some ''2023-06-02T00:00:00'', value_str = Some ''2'', qualifiers = None\<rparr>]\<rparr>"

definition conductivity_record :: afca_data where
  "conductivity_record =
     \<lparr>rec_location_id = 410, rec_location_name = ''Kenai River'', rec_year = 2023,
      rec_parameter = ''conductivity'', rec_unit = unit_conductivity,
      rec_data =
        [\<lparr>date = ''2023-06-01'', value_field = ''conductivity_us_cm'', daily_value = 1,
          daily_quality = Good\<rparr>,
         \<lparr>date = ''2023-06-02'', value_field = ''conductivity_us_cm'', daily_value = 2,
          daily_quality = Good\<rparr>],
      rec_statistics = \<lparr>stat_mean = 3 / 2, stat_min = 1, stat_max = 2, stat_count = 2\<rparr>,
      rec_source = ''USGS Stream Gauge Network'',
      rec_last_updated = ''2024-01-01T00:00:00''\<rparr>"

text \<open>One row of a water-quality export, and the record the EPA path writes for it.\<close>

definition epa_rows :: "csv_row list" where
  "epa_rows = [[(''Date'', ''2023-06-01''), (''pH'', ''7.5'')]]"

definition epa_written :: json where
  "epa_written =
     JObj [(''location_id'', JInt 410), (''location_name'', JStr ''Kenai River''),
           (''year'', JInt 2023), (''parameter'', JStr ''water_quality''),
           (''data'',
            JArr [JObj [(''date'', JStr ''2023-06-01''), (''ph'', JNum (15 / 2)),
                        (''dissolved_oxygen_mg_l'', JNull), (''turbidity_ntu'', JNull),
                        (''conductivity_us_cm'', JNull), (''quality'', JStr ''good'')]]),
           (''source'', JStr ''EPA National Aquatic Resource Surveys''),
           (''last_updated'', JStr ''2024-01-01T00:00:00'')]"

text \<open>A stage record that has every field of the schema but \<^verbatim>\<open>data\<close>, alone on a disk,
  and a validator that has checked nothing yet.\<close>

definition stage_record :: json where
  "stage_record =
     JObj [(''location_id'', JInt 410), (''location_name'', JStr ''Kenai River''),
           (''year'', JInt 2023), (''parameter'', JStr ''stage''), (''unit'', JStr ''ft''),
           (''statistics'',
            JObj [(''mean'', JNum 3), (''min'', JNum 2), (''max'', JNum 4), (''count'', JInt 2)]),
           (''source'', JStr ''USGS Stream Gauge Network''),
           (''last_updated'', JStr ''2024-01-01T00:00:00'')]"

definition no_results :: validation_results where
  "no_results =
     \<lparr>files_checked = 0, files_valid = 0, files_invalid = 0, errors = [], warnings = []\<rparr>"

definition fresh_validator :: "string \<Rightarrow> json \<Rightarrow> validator" where
  "fresh_validator file_path data =
     \<lparr>disk = \<lparr>fs_listing = Map.empty, fs_files = [file_path \<mapsto> Some data]\<rparr>,
      validation_results = no_results\<rparr>"

text \<open>A water-quality record with one day, whose pH is 11.\<close>

definition ph11_record :: json where
  "ph11_record =
     JObj [(''location_id'', JInt 410), (''location_name'', JStr ''Kenai River''),
           (''year'', JInt 2023), (''parameter'', JStr ''water_quality''),
           (''data'', JArr [JObj [(''date'', JStr ''2023-06-01''), (''ph'', JInt 11),
                                   (''quality'', JStr ''good'')]]),
           (''source'', JStr ''EPA National Aquatic Resource Surveys''),
           (''last_updated'', JStr ''2024-01-01T00:00:00'')]"


section \<open>Properties\<close>

subsection \<open>Loops\<close>


text \<open>Grouping, whatever the loop that feeds it: the dictionary after the pairs \<open>ps\<close>.\<close>

lemma map_of_group_add:
  "map_of (group_add k v g) =
     (map_of g)(k \<mapsto> (case map_of g k of None \<Rightarrow> [v] | Some vs \<Rightarrow> vs @ [v]))"
  by (induction g) (auto simp: fun_eq_iff)

lemma keys_group_add: "fst ` set (group_add k v g) = insert k (fst ` set g)"
proof (induction g)
  case Nil
  show ?case by simp
next
  case (Cons a g)
  obtain k0 vs0 where "a = (k0, vs0)" by (cases a)
  with Cons show ?case by (cases "k = k0") auto
qed

lemma distinct_group_add: "distinct (map fst g) \<Longrightarrow> distinct (map fst (group_add k v g))"
  by (induction g) (auto simp: keys_group_add)

lemma map_of_group_by:
  "map_of (foldl (\<lambda>g (k, v). group_add k v g) g ps) k =
     (let new = map snd (filter (\<lambda>p. fst p = k) ps)
      in case map_of g k of
           None \<Rightarrow> if new = [] then None else Some new
         | Some vs \<Rightarrow> Some (vs @ new))"
proof (induction ps arbitrary: g)
  case Nil
  then show ?case by (simp split: option.splits)
next
  case (Cons p ps)
  obtain k' v where p: "p = (k', v)" by (cases p)
  show ?case
    by (simp add: p Cons.IH map_of_group_add Let_def split: option.splits)
qed

lemma distinct_group_by:
  "distinct (map fst g) \<Longrightarrow> distinct (map fst (foldl (\<lambda>g (k, v). group_add k v g) g ps))"
  by (induction ps arbitrary: g) (auto simp: distinct_group_add)

lemma group_by_mem:
  "(k, vs) \<in> set (foldl (\<lambda>g (k, v). group_add k v g) [] ps) \<longleftrightarrow>
     vs \<noteq> [] \<and> vs = map snd (filter (\<lambda>p. fst p = k) ps)"
proof -
  let ?g = "foldl (\<lambda>g (k, v). group_add k v g) [] ps"
  have d: "distinct (map fst ?g)" by (rule distinct_group_by) simp
  have "(k, vs) \<in> set ?g \<longleftrightarrow> map_of ?g k = Some vs"
    using d by simp
  also have "\<dots> \<longleftrightarrow> vs \<noteq> [] \<and> vs = map snd (filter (\<lambda>p. fst p = k) ps)"
    by (auto simp: map_of_group_by Let_def)
  finally show ?thesis .
qed

lemma foldl_group_keyed:
  "foldl (\<lambda>g x. group_add (kf x) x g) g xs
     = foldl (\<lambda>g (k, v). group_add k v g) g (map (\<lambda>x. (kf x, x)) xs)"
  by (induction xs arbitrary: g) auto

lemma group_keyed_mem:
  "(k, vs) \<in> set (foldl (\<lambda>g x. group_add (kf x) x g) [] xs) \<longleftrightarrow>
     vs \<noteq> [] \<and> vs = filter (\<lambda>x. kf x = k) xs"
  by (simp add: foldl_group_keyed group_by_mem filter_map comp_def)


lemma write_each_mem:
  "w \<in> set (fst (write_each f xs)) \<Longrightarrow> \<exists>x \<in> set xs. f x = Inr (Some w)"
  by (induction xs) (auto split: sum.splits option.splits prod.splits)

subsection \<open>Rounding\<close>


lemma round_half_even_bounds: "\<lfloor>y\<rfloor> \<le> round_half_even y \<and> round_half_even y \<le> \<lfloor>y\<rfloor> + 1"
  by (simp add: round_half_even_def Let_def)

lemma round_half_even_mono:
  assumes "x \<le> y" shows "round_half_even x \<le> round_half_even y"
proof (cases "\<lfloor>x\<rfloor> = \<lfloor>y\<rfloor>")
  case True
  have "x - of_int \<lfloor>x\<rfloor> \<le> y - of_int \<lfloor>y\<rfloor>" using assms True by simp
  then show ?thesis using True
    by (auto simp: round_half_even_def Let_def)
next
  case False
  then have "\<lfloor>x\<rfloor> < \<lfloor>y\<rfloor>" using floor_mono [OF assms] by linarith
  then show ?thesis
    using round_half_even_bounds [of x] round_half_even_bounds [of y] by linarith
qed

lemma py_round_mono: "x \<le> y \<Longrightarrow> py_round x n \<le> py_round y n"
  by (simp add: py_round_def divide_right_mono round_half_even_mono mult_right_mono)





subsection \<open>Minimum, maximum and mean\<close>



lemma py_min_le: "x \<in> set xs \<Longrightarrow> py_min xs \<le> x"
  by (induction xs rule: py_min.induct) (auto simp: min_def)

lemma py_max_ge: "x \<in> set xs \<Longrightarrow> x \<le> py_max xs"
  by (induction xs rule: py_max.induct) (auto simp: max_def)

lemma sum_list_lower: "\<forall>x \<in> set xs. c \<le> x \<Longrightarrow> of_nat (length xs) * c \<le> sum_list xs" for c :: real
  by (induction xs) (auto simp: algebra_simps)

lemma sum_list_upper: "\<forall>x \<in> set xs. x \<le> c \<Longrightarrow> sum_list xs \<le> of_nat (length xs) * c" for c :: real
  by (induction xs) (auto simp: algebra_simps)

lemma average_bounds:
  assumes "xs \<noteq> []" shows "py_min xs \<le> average xs \<and> average xs \<le> py_max xs"
proof -
  have pos: "0 < (of_nat (length xs) :: real)" using assms by simp
  have "of_nat (length xs) * py_min xs \<le> sum_list xs"
    by (rule sum_list_lower) (simp add: py_min_le)
  moreover have "sum_list xs \<le> of_nat (length xs) * py_max xs"
    by (rule sum_list_upper) (simp add: py_max_ge)
  ultimately show ?thesis using pos
    by (simp add: average_def pos_le_divide_eq pos_divide_le_eq mult.commute)
qed

lemma compute_stats_ordered:
  "vals \<noteq> [] \<Longrightarrow> stat_min (compute_stats vals) \<le> stat_mean (compute_stats vals)
     \<and> stat_mean (compute_stats vals) \<le> stat_max (compute_stats vals)"
  by (simp add: compute_stats_def py_round_mono average_bounds)

subsection \<open>What the writers return\<close>

lemma read_values_Inr:
  "read_values field ds = Inr vs \<Longrightarrow> vs = map daily_value ds \<and> (\<forall>d \<in> set ds. value_field d = field)"
  by (induction ds arbitrary: vs) (auto split: if_splits sum.splits)

lemma save_processed_data_Some:
  assumes "save_processed_data now location_id location_name parameter year year_data
             = Inr (Some (path, r))"
  shows "year_data \<noteq> [] \<and> rec_data r = year_data \<and> rec_parameter r = parameter
         \<and> rec_statistics r = compute_stats (map daily_value year_data)
         \<and> stat_fields parameter \<noteq> None"
  using assms
  by (auto simp: save_processed_data_def split: option.splits sum.splits if_splits prod.splits
      dest!: read_values_Inr)




lemma group_days_by_year_subset:
  assumes "(y, ds) \<in> set (group_days_by_year daily_data)" and "d \<in> set ds"
  shows "d \<in> set daily_data"
  using assms by (auto simp: group_days_by_year_def group_keyed_mem)

lemma process_time_series_mem:
  assumes "(path, r) \<in> set (fst (process_time_series to_float now s))"
  shows "\<exists>location_id year year_data.
           save_processed_data now location_id (site_name s) (rec_parameter r) year year_data
             = Inr (Some (path, r))
           \<and> set year_data \<subseteq> set (convert_to_daily_data to_float (series_values s) (rec_parameter r))"
proof -
  define parameter where
    "parameter = (case map_of parameter_map (variable_code s) of None \<Rightarrow> ''unknown'' | Some p \<Rightarrow> p)"
  from assms obtain location_id where
    w: "(path, r) \<in> set (fst (write_each
          (\<lambda>(year, year_data). save_processed_data now location_id (site_name s) parameter year year_data)
          (group_days_by_year (convert_to_daily_data to_float (series_values s) parameter))))"
    by (auto simp: process_time_series_def Let_def parameter_def [symmetric]
        split: if_splits option.splits)
  from write_each_mem [OF w] obtain year year_data where
    g: "(year, year_data) \<in> set (group_days_by_year
          (convert_to_daily_data to_float (series_values s) parameter))"
    and sv: "save_processed_data now location_id (site_name s) parameter year year_data
             = Inr (Some (path, r))"
    by auto
  from save_processed_data_Some [OF sv] have p: "rec_parameter r = parameter" by simp
  have "set year_data \<subseteq> set (convert_to_daily_data to_float (series_values s) parameter)"
    using group_days_by_year_subset [OF g] by blast
  with sv p show ?thesis by blast
qed


text \<open>
  The claim as stated, that the mean too has the precision of the daily values, fails for
  conductivity: the readings 1 and 2 of two days give the mean 1.5.
\<close>

lemma conductivity_example:
  "process_time_series decimal_float ''2024-01-01T00:00:00'' conductivity_series
   = ([(''./data/04-quality/location-410-2023.json'', conductivity_record)], None)"
  by code_simp



text \<open>
  What does hold of the statistics of these records: they are ordered, and the count is the
  number of daily samples of the record.
\<close>

lemma usgs_raw_statistics_consistent:
  assumes "(path, r) \<in> set (fst (process_time_series to_float now s))"
  shows "stat_count (rec_statistics r) = length (rec_data r)
         \<and> stat_min (rec_statistics r) \<le> stat_mean (rec_statistics r)
         \<and> stat_mean (rec_statistics r) \<le> stat_max (rec_statistics r)"
proof -
  from process_time_series_mem [OF assms] obtain location_id year year_data where
    "save_processed_data now location_id (site_name s) (rec_parameter r) year year_data
       = Inr (Some (path, r))"
    by blast
  note sp = save_processed_data_Some [OF this]
  then have "map daily_value year_data \<noteq> []" by simp
  from compute_stats_ordered [OF this] sp show ?thesis
    by (simp add: compute_stats_def)
qed

subsection \<open>Sorting by a key that has no duplicates\<close>




subsection \<open>The two aggregations as groupings\<close>









subsection \<open>The samples that reach a group\<close>











subsection \<open>The dates of the daily records\<close>









subsection \<open>Samples that are discarded\<close>













subsection \<open>Quality of a single sample\<close>

lemma quality_loop_unrecognised:
  "\<forall>c \<in> set cs. c \<notin> set [''P'', ''e'', ''A'', ''R'', ''S''] \<Longrightarrow>
   quality_loop q (map Some cs) = Inr q"
  by (induction cs arbitrary: q) auto

lemma determine_quality_no_qualifier:
  "qualifiers v = None \<or> qualifiers v = Some [] \<Longrightarrow> determine_quality v = Inr Good"
  by (auto simp: determine_quality_def)

text \<open>
  C5. The claim is that a sample is \<open>poor\<close> as soon as one of its qualifier codes is
  \<open>R\<close> or \<open>S\<close>, also when another code is \<open>P\<close>, \<open>e\<close> or \<open>A\<close>. The loop keeps the tier
  of the last recognised code: a sample whose codes are \<open>R\<close> then \<open>P\<close> is classified
  \<open>fair\<close>, while the same two codes in the other order give \<open>poor\<close>.
\<close>

theorem determine_quality_last_code_wins:
  "determine_quality \<lparr>dateTime = Some ''2023-06-01T00:00:00'', value_str = Some ''12.0'',
                       qualifiers = Some [Some ''R'', Some ''P'']\<rparr> = Inr Fair
   \<and> determine_quality \<lparr>dateTime = Some ''2023-06-01T00:00:00'', value_str = Some ''12.0'',
                       qualifiers = Some [Some ''P'', Some ''R'']\<rparr> = Inr Poor"
  by (simp add: determine_quality_def)

subsection \<open>Quality of a day\<close>

text \<open>The rule of \<^verbatim>\<open>USGSRawDataProcessor\<close> is the rule of the specification.\<close>

lemma overall_quality_worst_tier:
  "overall_quality qs =
     (if Poor \<in> set qs then Poor else if \<exists>q \<in> set qs. q \<noteq> Good then Fair else Good)"
  by (auto simp: overall_quality_def list_all_iff list_ex_iff)

lemma usgs_day_quality:
  "daily_average parameter (d, day_values) = Some r \<Longrightarrow>
   daily_quality r = overall_quality (map dv_quality day_values)"
  by (auto simp: daily_average_def Let_def split: if_splits option.splits)

text \<open>
  C1. The claim is that a day with a \<open>poor\<close> sample is \<open>poor\<close>. The daily aggregation
  of \<^verbatim>\<open>WaterDataProcessor\<close> knows two tiers only: a day with a \<open>good\<close> and a \<open>poor\<close>
  reading comes out \<open>fair\<close>. \<^verbatim>\<open>USGSRawDataProcessor\<close> gives \<open>poor\<close> for the same
  readings.
\<close>

theorem water_day_with_poor_sample_is_fair:
  "water_convert_to_daily_data (extract_data_points decimal_float (one_day [''R''])) ''temperature_c''
     = [\<lparr>date = ''2023-06-01'', value_field = ''temperature_c'', daily_value = 13,
         daily_quality = Fair\<rparr>]
   \<and> map dp_quality (extract_data_points decimal_float (one_day [''R''])) = [Good, Poor]
   \<and> convert_to_daily_data decimal_float (one_day [''R'']) ''temperature''
     = [\<lparr>date = ''2023-06-01'', value_field = ''temperature_c'', daily_value = 13,
         daily_quality = Poor\<rparr>]"
  by code_simp

subsection \<open>Statistics of a year\<close>

text \<open>
  C6. The claim is that the count of a record is the number of its daily samples. In
  \<^verbatim>\<open>WaterDataProcessor._save_usgs_data\<close> the statistics are those of the readings, the
  data their daily aggregation: two readings of one day give a record of one day whose
  count is 2, and whose minimum and maximum are the readings, not the day's value.
\<close>

theorem usgs_water_count_is_number_of_readings:
  "save_usgs_data ''2024-01-01T00:00:00'' 410 ''Kenai River'' ''temperature''
     (extract_data_points decimal_float (one_day [''P'']))
   = ([(''./data/03-temperature/location-410-2023.json'',
        \<lparr>rec_location_id = 410, rec_location_name = ''Kenai River'', rec_year = 2023,
         rec_parameter = ''temperature'', rec_unit = unit_temperature,
         rec_data = [\<lparr>date = ''2023-06-01'', value_field = ''temperature_c'', daily_value = 13,
                      daily_quality = Fair\<rparr>],
         rec_statistics = \<lparr>stat_mean = 13, stat_min = 12, stat_max = 14, stat_count = 2\<rparr>,
         rec_source = ''USGS Stream Gauge Network'',
         rec_last_updated = ''2024-01-01T00:00:00''\<rparr>)], None)"
  by code_simp

subsection \<open>Fields of the records\<close>

lemma afca_json_fields:
  "json_keys (afca_json r) = schema_fields
   \<and> statistics_keys (afca_json r) = [''mean'', ''min'', ''max'', ''count'']"
  by (simp add: afca_json_def json_keys_def schema_fields_def statistics_keys_def stats_json_def)

lemma dump_fields:
  "(p, j) \<in> set (dump ws) \<Longrightarrow>
   json_keys j = schema_fields \<and> statistics_keys j = [''mean'', ''min'', ''max'', ''count'']"
  by (auto simp: dump_def afca_json_fields)

lemma epa_record_fields:
  "epa_record now location_id location_name e = Inr (Some (p, j)) \<Longrightarrow>
   json_keys j = [''location_id'', ''location_name'', ''year'', ''parameter'', ''data'',
                  ''source'', ''last_updated'']"
  by (cases e) (auto simp: epa_record_def json_keys_def split: option.splits)

text \<open>
  C4 (amended). Every record written by the three writers of single-parameter series
  (\<^verbatim>\<open>_save_processed_data\<close> and \<^verbatim>\<open>_save_usgs_data\<close> for USGS data,
  \<^verbatim>\<open>_save_research_data\<close>) has all nine fields of the schema, with the four statistics.
  A record written by the water-quality (EPA CSV) path has seven of them: it has no
  \<^verbatim>\<open>unit\<close> and no \<^verbatim>\<open>statistics\<close>.
\<close>

theorem fields_of_written_records:
  "(\<forall>(p, j) \<in> set (dump (fst (process_time_series to_float now s))).
       json_keys j = schema_fields
       \<and> statistics_keys j = [''mean'', ''min'', ''max'', ''count''])
   \<and> (\<forall>(p, j) \<in> set (dump (fst (save_usgs_data now location_id location_name parameter
                                      data_points))).
       json_keys j = schema_fields
       \<and> statistics_keys j = [''mean'', ''min'', ''max'', ''count''])
   \<and> (\<forall>(p, j) \<in> set (dump (written (save_research_data now location_id location_name
                                          parameter vals))).
       json_keys j = schema_fields
       \<and> statistics_keys j = [''mean'', ''min'', ''max'', ''count''])
   \<and> (\<forall>(p, j) \<in> set (fst (process_epa_water_quality_data to_float now location_id
                                 location_name rows)).
       json_keys j = [''location_id'', ''location_name'', ''year'', ''parameter'', ''data'',
                      ''source'', ''last_updated''])"
proof (intro conjI ballI)
  fix x
  assume a: "x \<in> set (fst (process_epa_water_quality_data to_float now location_id location_name rows))"
  from write_each_mem [OF a [unfolded process_epa_water_quality_data_def]]
  obtain e where "epa_record now location_id location_name e = Inr (Some x)"
    by blast
  then show "case x of (p, j) \<Rightarrow>
       json_keys j = [''location_id'', ''location_name'', ''year'', ''parameter'', ''data'',
                      ''source'', ''last_updated'']"
    using epa_record_fields by (cases x) blast
qed (use dump_fields in \<open>blast+\<close>)

lemma epa_example:
  "process_epa_water_quality_data decimal_float ''2024-01-01T00:00:00'' 410 ''Kenai River'' epa_rows
   = ([(''./data/04-quality/location-410-2023.json'', epa_written)], None)"
  by code_simp

theorem epa_record_lacks_unit_and_statistics:
  "process_epa_water_quality_data decimal_float ''2024-01-01T00:00:00'' 410 ''Kenai River'' epa_rows
     = ([(''./data/04-quality/location-410-2023.json'', epa_written)], None)
   \<and> ''unit'' \<notin> set (json_keys epa_written)
   \<and> ''statistics'' \<notin> set (json_keys epa_written)
   \<and> json_keys epa_written \<noteq> schema_fields"
  using epa_example by (simp add: epa_written_def json_keys_def schema_fields_def)

theorem fields_of_written_records_witness:
  "(''./data/04-quality/location-410-2023.json'', afca_json conductivity_record)
     \<in> set (dump (fst (process_time_series decimal_float ''2024-01-01T00:00:00''
                         conductivity_series)))
   \<and> json_keys (afca_json conductivity_record) = schema_fields
   \<and> statistics_keys (afca_json conductivity_record) = [''mean'', ''min'', ''max'', ''count'']
   \<and> (''./data/04-quality/location-410-2023.json'', epa_written)
     \<in> set (fst (process_epa_water_quality_data decimal_float ''2024-01-01T00:00:00'' 410
                    ''Kenai River'' epa_rows))
   \<and> json_keys epa_written
       = [''location_id'', ''location_name'', ''year'', ''parameter'', ''data'', ''source'',
          ''last_updated'']"
proof -
  have a: "(''./data/04-quality/location-410-2023.json'', afca_json conductivity_record)
     \<in> set (dump (fst (process_time_series decimal_float ''2024-01-01T00:00:00''
                         conductivity_series)))"
    by (simp add: conductivity_example dump_def)
  have b: "(''./data/04-quality/location-410-2023.json'', epa_written)
     \<in> set (fst (process_epa_water_quality_data decimal_float ''2024-01-01T00:00:00'' 410
                    ''Kenai River'' epa_rows))"
    by (simp add: epa_example)
  from fields_of_written_records
         [of decimal_float "''2024-01-01T00:00:00''" conductivity_series 410 "''Kenai River''"
             "''temperature''" "[]" "[]" epa_rows]
    a b show ?thesis by blast
qed

subsection \<open>The validator\<close>

lemma validate_file_reads_only: "disk (validate_file file_path directory_name v) = disk v"
  by (simp add: validate_file_def Let_def)

text \<open>
  C10. The claim is that a time-series record without \<^verbatim>\<open>data\<close> is marked invalid with
  an error. \<^verbatim>\<open>validate_file\<close> has a validation for the directories of temperature, flow,
  quality and watersheds and none for \<^verbatim>\<open>06-stage\<close>, which \<^verbatim>\<open>validate_all_data_files\<close>
  walks too: a stage record without \<^verbatim>\<open>data\<close> is counted valid and no error is
  recorded. The same record in \<^verbatim>\<open>03-temperature\<close> is invalid.
\<close>

theorem stage_record_without_data_is_valid:
  "validation_results
     (validate_file ''./data/06-stage/location-410-2023.json'' ''06-stage''
        (fresh_validator ''./data/06-stage/location-410-2023.json'' stage_record))
   = \<lparr>files_checked = 1, files_valid = 1, files_invalid = 0, errors = [], warnings = []\<rparr>
   \<and> validation_results
     (validate_file ''./data/03-temperature/location-410-2023.json'' ''03-temperature''
        (fresh_validator ''./data/03-temperature/location-410-2023.json'' stage_record))
   = \<lparr>files_checked = 1, files_valid = 0, files_invalid = 1,
      errors = [\<lparr>issue_file = ''./data/03-temperature/location-410-2023.json'',
                 issue_type = ''missing_data''\<rparr>],
      warnings = []\<rparr>"
  by code_simp

text \<open>The rest of the claim holds: a pH of 11 is a warning and the file is valid.\<close>

lemma ph11_is_a_warning:
  "validation_results
     (validate_file ''./data/04-quality/location-410-2023.json'' ''04-quality''
        (fresh_validator ''./data/04-quality/location-410-2023.json'' ph11_record))
   = \<lparr>files_checked = 1, files_valid = 1, files_invalid = 0, errors = [],
      warnings = [\<lparr>issue_file = ''./data/04-quality/location-410-2023.json'',
                   issue_type = ''unusual_value''\<rparr>]\<rparr>"
  by code_simp

section \<open>The manifest\<close>

subsection \<open>Dictionaries\<close>

lemma map_of_dict_set: "map_of (dict_set k v d) k' = (if k' = k then Some v else map_of d k')"
  by (induction d) auto

lemma dict_set_same: "map_of d k = Some v \<Longrightarrow> dict_set k v d = d"
  by (induction d) (auto split: if_splits)


subsection \<open>Rebuilding the manifest twice\<close>

lemma scan_dir_listing:
  assumes "fs_listing fs' = fs_listing fs"
  shows "scan_dir scan_file fs' = scan_dir scan_file fs"
proof (intro ext)
  fix sc data_dir
  show "scan_dir scan_file fs' sc data_dir = scan_dir scan_file fs sc data_dir"
    by (simp only: scan_dir_def assms)
qed

lemma scan_all_listing:
  assumes "fs_listing fs' = fs_listing fs"
  shows "scan_all scan_file fs' = scan_all scan_file fs"
  unfolding scan_all_def scan_dir_listing [OF assms] by (rule refl)

lemma set_statistics_again: "set_statistics sc (set_statistics sc st) = set_statistics sc st"
  by (simp add: set_statistics_def dict_set_same map_of_dict_set)

lemma set_manifest_Inr:
  assumes "set_manifest now sc manifest = Inr m'"
  shows "\<exists>m st. manifest = JObj m \<and> map_of m ''statistics'' = Some (JObj st)
           \<and> m' = JObj (dict_set ''organized'' (organized_json (organized sc))
                    (dict_set ''last_updated'' (JStr now)
                       (dict_set ''statistics'' (JObj (set_statistics sc st)) m)))"
  using assms
  by (auto simp: set_manifest_def split: json.splits option.splits)


lemma set_manifest_twice:
  assumes "set_manifest now1 sc manifest = Inr m1"
  shows "\<exists>m st m2. m1 = JObj m \<and> set_manifest now2 sc m1 = Inr (JObj m2)
           \<and> map_of m ''organized'' = Some (organized_json (organized sc))
           \<and> map_of m2 ''organized'' = Some (organized_json (organized sc))
           \<and> map_of m ''statistics'' = Some (JObj (set_statistics sc st))
           \<and> map_of m2 ''statistics'' = Some (JObj (set_statistics sc st))"
proof -
  from set_manifest_Inr [OF assms] obtain m0 st where
    m1: "m1 = JObj (dict_set ''organized'' (organized_json (organized sc))
                    (dict_set ''last_updated'' (JStr now1)
                       (dict_set ''statistics'' (JObj (set_statistics sc st)) m0)))"
    by blast
  let ?m = "dict_set ''organized'' (organized_json (organized sc))
              (dict_set ''last_updated'' (JStr now1)
                 (dict_set ''statistics'' (JObj (set_statistics sc st)) m0))"
  have s: "map_of ?m ''statistics'' = Some (JObj (set_statistics sc st))"
    by (simp add: map_of_dict_set)
  have o: "map_of ?m ''organized'' = Some (organized_json (organized sc))"
    by (simp add: map_of_dict_set)
  let ?m2 = "dict_set ''organized'' (organized_json (organized sc))
              (dict_set ''last_updated'' (JStr now2)
                 (dict_set ''statistics'' (JObj (set_statistics sc (set_statistics sc st))) ?m))"
  have r: "set_manifest now2 sc (JObj ?m) = Inr (JObj ?m2)"
    by (simp add: set_manifest_def s)
  have "map_of ?m2 ''organized'' = Some (organized_json (organized sc))"
    by (simp add: map_of_dict_set)
  moreover have "map_of ?m2 ''statistics'' = Some (JObj (set_statistics sc st))"
    by (simp add: map_of_dict_set set_statistics_again)
  ultimately show ?thesis using m1 s o r by blast
qed

lemma update_manifest_idempotent:
  assumes "update_manifest scan_file now1 fs = Inr fs1"
  shows "\<exists>fs2 st.
           update_manifest scan_file now2 fs1 = Inr fs2
           \<and> manifest_block fs1 ''organized''
               = Some (organized_json (organized (scan_all scan_file fs)))
           \<and> manifest_block fs1 ''statistics''
               = Some (JObj (set_statistics (scan_all scan_file fs) st))
           \<and> manifest_block fs2 ''organized'' = manifest_block fs1 ''organized''
           \<and> manifest_block fs2 ''statistics'' = manifest_block fs1 ''statistics''
           \<and> fs_listing fs2 = fs_listing fs"
proof -
  let ?sc = "scan_all scan_file fs"
  from assms obtain manifest m1 where
    rd: "fs_files fs ''./manifest.json'' = Some (Some manifest)"
    and sm: "set_manifest now1 ?sc manifest = Inr m1"
    and fs1: "fs1 = fs\<lparr>fs_files := (fs_files fs)(''./manifest.json'' := Some (Some m1))\<rparr>"
    by (auto simp: update_manifest_def split: option.splits sum.splits)
  from set_manifest_twice [OF sm, of now2] obtain m st m2 where
    m1: "m1 = JObj m" and again: "set_manifest now2 ?sc m1 = Inr (JObj m2)"
    and o1: "map_of m ''organized'' = Some (organized_json (organized ?sc))"
    and o2: "map_of m2 ''organized'' = Some (organized_json (organized ?sc))"
    and s1: "map_of m ''statistics'' = Some (JObj (set_statistics ?sc st))"
    and s2: "map_of m2 ''statistics'' = Some (JObj (set_statistics ?sc st))"
    by blast
  have sc: "scan_all scan_file fs1 = ?sc"
    by (rule scan_all_listing) (simp add: fs1)
  let ?fs2 = "fs1\<lparr>fs_files := (fs_files fs1)(''./manifest.json'' := Some (Some (JObj m2)))\<rparr>"
  have "update_manifest scan_file now2 fs1 = Inr ?fs2"
    using again by (simp add: update_manifest_def fs1 sc [unfolded fs1])
  moreover have "manifest_block fs1 ''organized'' = Some (organized_json (organized ?sc))"
    "manifest_block fs1 ''statistics'' = Some (JObj (set_statistics ?sc st))"
    by (simp_all add: manifest_block_def fs1 m1 o1 s1)
  moreover have "manifest_block ?fs2 ''organized'' = Some (organized_json (organized ?sc))"
    "manifest_block ?fs2 ''statistics'' = Some (JObj (set_statistics ?sc st))"
    by (simp_all add: manifest_block_def o2 s2)
  moreover have "fs_listing ?fs2 = fs_listing fs" by (simp add: fs1)
  ultimately show ?thesis by (metis (no_types, lifting))
qed


lemma conventional_manifest: "fs_files conventional ''./manifest.json'' = Some (Some old_manifest)"
  by (simp add: conventional_def)

text \<open>The scans of the two directories, evaluated.\<close>

lemmas scan_eval =
  scan_all_def data_dirs_def scan_dir_def Let_def endswith_def
  usgs_scan_file_def water_scan_file_def add_organized_def
  py_int_def strip_def is_space_def is_digit_def less_eq_char_def nat_of_digits_def
  digit_value_def py_str_def str_nat.simps digit_char_def

lemma conventional_scan:
  "scan_all usgs_scan_file conventional
   = \<lparr>total_files = 2, locations_covered = {410}, years_covered = {2023},
      organized =
        [(''410'',
          \<lparr>e_watershed = ''data/02-watersheds/location-410.json'',
           e_temperature = [(''2023'', ''data/03-temperature/location-410-2023.json'')],
           e_flow = [], e_quality = [], e_stage = []\<rparr>)]\<rparr>"
  "scan_all water_scan_file conventional
   = \<lparr>total_files = 2, locations_covered = {410}, years_covered = {2023},
      organized =
        [(''410'',
          \<lparr>e_watershed = ''data/02-watersheds/location-410.json'',
           e_temperature = [(''2023'', ''data/03-temperature/location-410-2023.json'')],
           e_flow = [], e_quality = [], e_stage = []\<rparr>)]\<rparr>"
  by (simp_all add: scan_eval conventional_def)




lemma conventional_scanned:
  "set_manifest now (scan_all usgs_scan_file conventional) old_manifest = Inr (rebuilt_manifest now)
   \<and> set_manifest now (scan_all water_scan_file conventional) old_manifest
       = Inr (rebuilt_manifest now)"
  by (simp add: conventional_scan set_manifest_def old_manifest_def rebuilt_manifest_def
      set_statistics_def organized_json_def entry_json_def paths_json_def)

lemma conventional_rebuilt:
  "usgs_update_manifest now conventional = Inr (rebuilt now)
   \<and> water_update_manifest now conventional = Inr (rebuilt now)"
  by (simp add: usgs_update_manifest_def water_update_manifest_def update_manifest_def
      conventional_manifest conventional_scanned rebuilt_def)

text \<open>
  C7. When a rebuild of the manifest returns, a second rebuild of what it left returns
  too, and the members \<^verbatim>\<open>organized\<close> and \<^verbatim>\<open>statistics\<close> of the manifest on disk are
  the same after both: \<^verbatim>\<open>organized\<close> is the index of the scan, and \<^verbatim>\<open>statistics\<close> has
  the three counts of the scan assigned in the dictionary that was there. The rebuild
  writes the manifest only, so the second run lists the same files; a directory is
  listed in the same order both times.
\<close>

theorem manifest_rebuild_idempotent:
  "(usgs_update_manifest now1 fs = Inr fs1 \<longrightarrow>
      (\<exists>fs2 st.
         usgs_update_manifest now2 fs1 = Inr fs2
         \<and> manifest_block fs1 ''organized''
             = Some (organized_json (organized (scan_all usgs_scan_file fs)))
         \<and> manifest_block fs1 ''statistics''
             = Some (JObj (set_statistics (scan_all usgs_scan_file fs) st))
         \<and> manifest_block fs2 ''organized'' = manifest_block fs1 ''organized''
         \<and> manifest_block fs2 ''statistics'' = manifest_block fs1 ''statistics''
         \<and> fs_listing fs2 = fs_listing fs))
   \<and> (water_update_manifest now1 fs = Inr fs1' \<longrightarrow>
      (\<exists>fs2 st.
         water_update_manifest now2 fs1' = Inr fs2
         \<and> manifest_block fs1' ''organized''
             = Some (organized_json (organized (scan_all water_scan_file fs)))
         \<and> manifest_block fs1' ''statistics''
             = Some (JObj (set_statistics (scan_all water_scan_file fs) st))
         \<and> manifest_block fs2 ''organized'' = manifest_block fs1' ''organized''
         \<and> manifest_block fs2 ''statistics'' = manifest_block fs1' ''statistics''
         \<and> fs_listing fs2 = fs_listing fs))"
  unfolding usgs_update_manifest_def water_update_manifest_def
  using update_manifest_idempotent by blast

theorem manifest_rebuild_witness:
  "usgs_update_manifest ''2024-01-01T00:00:00'' conventional = Inr (rebuilt ''2024-01-01T00:00:00'')
   \<and> water_update_manifest ''2024-01-01T00:00:00'' conventional
       = Inr (rebuilt ''2024-01-01T00:00:00'')
   \<and> (\<exists>fs2. usgs_update_manifest ''2024-01-02T00:00:00'' (rebuilt ''2024-01-01T00:00:00'') = Inr fs2
         \<and> manifest_block fs2 ''organized''
             = manifest_block (rebuilt ''2024-01-01T00:00:00'') ''organized''
         \<and> manifest_block fs2 ''statistics''
             = manifest_block (rebuilt ''2024-01-01T00:00:00'') ''statistics'')
   \<and> (\<exists>fs2. water_update_manifest ''2024-01-02T00:00:00'' (rebuilt ''2024-01-01T00:00:00'') = Inr fs2
         \<and> manifest_block fs2 ''organized''
             = manifest_block (rebuilt ''2024-01-01T00:00:00'') ''organized''
         \<and> manifest_block fs2 ''statistics''
             = manifest_block (rebuilt ''2024-01-01T00:00:00'') ''statistics'')"
proof -
  note r = conventional_rebuilt [of "''2024-01-01T00:00:00''"]
  from manifest_rebuild_idempotent
         [of "''2024-01-01T00:00:00''" conventional "rebuilt ''2024-01-01T00:00:00''"
             "''2024-01-02T00:00:00''" "rebuilt ''2024-01-01T00:00:00''"]
    r show ?thesis by blast
qed

subsection \<open>Numbers and names as strings\<close>















subsection \<open>The index refers to scanned files\<close>



















end
